theory Spec2Isabelle
  imports Complex_Main "HOL-Library.Sublist"
begin

section \<open>JavaScript values used by the bridge\<close>

text \<open>
  An \<^verbatim>\<open>async\<close> method returns a promise. \<^verbatim>\<open>await p\<close> is the value the promise resolves
  to. Used as a condition without \<^verbatim>\<open>await\<close>, the promise is an object, and every object
  is truthy, whatever it resolves to.
\<close>

datatype 'a promise = Resolved 'a

fun await :: "'a promise \<Rightarrow> 'a" where
  "await (Resolved v) = v"

fun truthy :: "'a promise \<Rightarrow> bool" where
  "truthy (Resolved v) = True"

text \<open>
  \<^verbatim>\<open>String.prototype.toLowerCase\<close> on the ASCII letters; the addresses of both chains
  are ASCII. Strings are byte lists here, so a letter outside ASCII is left as it is.
\<close>

definition lower_char :: "char \<Rightarrow> char" where
  "lower_char c =
     (case map_of (zip ''ABCDEFGHIJKLMNOPQRSTUVWXYZ'' ''abcdefghijklmnopqrstuvwxyz'') c of
        Some l \<Rightarrow> l
      | None \<Rightarrow> c)"

definition toLowerCase :: "string \<Rightarrow> string" where
  "toLowerCase s = map lower_char s"

text \<open>\<^verbatim>\<open>s.replace(pat, rep)\<close> with a string pattern: the first occurrence only.\<close>

fun replace_first :: "string \<Rightarrow> string \<Rightarrow> string \<Rightarrow> string" where
  "replace_first pat rep [] = (if pat = [] then rep else [])"
| "replace_first pat rep (c # cs) =
     (if prefix pat (c # cs) then rep @ drop (length pat) (c # cs)
      else c # replace_first pat rep cs)"

text \<open>
  \<^verbatim>\<open>String(n)\<close> for a number that holds an integer (below \<open>10\<^sup>2\<^sup>1\<close> in size, where the
  decimal digits are printed), as in a template string.
\<close>

definition digit_char :: "nat \<Rightarrow> char" where
  "digit_char d = ''0123456789'' ! d"

function string_of_nat :: "nat \<Rightarrow> string" where
  "string_of_nat n =
     (if n < 10 then [digit_char n] else string_of_nat (n div 10) @ [digit_char (n mod 10)])"
  by pat_completeness auto
termination
  by (relation "measure (\<lambda>n. n)") auto

declare string_of_nat.simps [simp del]

definition Number_toString :: "int \<Rightarrow> string" where
  "Number_toString i =
     (if i < 0 then CHR ''-'' # string_of_nat (nat (- i)) else string_of_nat (nat i))"

definition dquote :: string where
  "dquote = [CHR 0x22]"

text \<open>
  A JavaScript number is a binary64 floating point number. A finite one is kept as the
  rational it denotes. \<open>Number_value x\<close> is the number nearest to \<open>x\<close>: \<open>x\<close> rounded to
  53 significant bits, a tie going to the even significand. The exponent is not bounded
  here; binary64 agrees as long as the size of \<open>x\<close> is between \<open>2\<^sup>-\<^sup>1\<^sup>0\<^sup>2\<^sup>2\<close> and
  \<open>2\<^sup>1\<^sup>0\<^sup>2\<^sup>4\<close>, which holds for every amount of a ledger whose raw amounts are below
  \<open>2\<^sup>1\<^sup>2\<^sup>8\<close>.
\<close>

function bit_length :: "int \<Rightarrow> int" where
  "bit_length a = (if a \<le> 0 then 0 else 1 + bit_length (a div 2))"
  by pat_completeness auto
termination
  by (relation "measure nat") auto

declare bit_length.simps [simp del]

definition pow2 :: "int \<Rightarrow> rat" where
  "pow2 e = (if 0 \<le> e then 2 ^ nat e else 1 / 2 ^ nat (- e))"

text \<open>For \<open>x > 0\<close>, the exponent \<open>e\<close> with \<open>2\<^sup>e \<le> x < 2\<^sup>e\<^sup>+\<^sup>1\<close>.\<close>

definition floor_log2 :: "rat \<Rightarrow> int" where
  "floor_log2 x =
     (let (a, b) = quotient_of x;
          e0 = bit_length a - bit_length b
      in if pow2 e0 \<le> x then e0 else e0 - 1)"

definition round_half_even :: "rat \<Rightarrow> int" where
  "round_half_even q =
     (let f = \<lfloor>q\<rfloor>; d = q - of_int f
      in if d < 1 / 2 then f else if 1 / 2 < d then f + 1 else if even f then f else f + 1)"

definition Number_value :: "rat \<Rightarrow> rat" where
  "Number_value x =
     (if x = 0 then 0
      else let u = pow2 (floor_log2 \<bar>x\<bar> - 52)
           in sgn x * of_int (round_half_even (\<bar>x\<bar> / u)) * u)"

text \<open>\<^verbatim>\<open>Math.round\<close>: the nearest integer, a tie going up.\<close>

definition Math_round :: "rat \<Rightarrow> rat" where
  "Math_round y = of_int \<lfloor>y + 1 / 2\<rfloor>"

text \<open>
  \<^verbatim>\<open>Number.parseFloat(ethers.utils.formatEther(amount))\<close>: \<^verbatim>\<open>formatEther\<close> prints the exact
  decimal expansion of \<open>amount / 10\<^sup>1\<^sup>8\<close>, and \<^verbatim>\<open>parseFloat\<close> reads it as the nearest
  number.
\<close>

definition parseFloat_formatEther :: "int \<Rightarrow> rat" where
  "parseFloat_formatEther amount = Number_value (of_int amount / 10 ^ 18)"

text \<open>
  \<^verbatim>\<open>Number.parseInt(ethers.utils.formatUnits(amount, 18), 10)\<close>: \<^verbatim>\<open>parseInt\<close> reads the
  digits before the decimal point, with their sign.
\<close>

definition parseInt_formatUnits :: "int \<Rightarrow> rat" where
  "parseInt_formatUnits amount = Number_value (of_int (sgn amount * (\<bar>amount\<bar> div 10 ^ 18)))"

text \<open>
  \<^verbatim>\<open>BigNumber.from(n)\<close> for a number: ethers throws on a fraction and outside the safe
  integers.
\<close>

definition BigNumber_from_number :: "rat \<Rightarrow> int option" where
  "BigNumber_from_number n =
     (if of_int \<lfloor>n\<rfloor> \<noteq> n then None
      else if n \<ge> 2 ^ 53 - 1 \<or> n \<le> - (2 ^ 53 - 1) then None
      else Some \<lfloor>n\<rfloor>)"

text \<open>
  \<^verbatim>\<open>ethers.utils.parseEther(n.toString())\<close> for a number that holds an integer. From
  \<open>10\<^sup>2\<^sup>1\<close> on \<^verbatim>\<open>toString\<close> prints an exponent, which \<^verbatim>\<open>parseEther\<close> refuses.
\<close>

definition parseEther_toString :: "rat \<Rightarrow> int option" where
  "parseEther_toString n = (if \<bar>n\<bar> < 10 ^ 21 then Some (\<lfloor>n\<rfloor> * 10 ^ 18) else None)"

text \<open>
  The exceptions of the source, one constructor per \<^verbatim>\<open>throw\<close> (and per kind of
  exception a library raises on an input it refuses).
\<close>

datatype error =
    AlreadyProcessed \<comment> \<open>"Can't withdraw PAW as the transaction was already processed"\<close>
  | InvalidSignatureError
  | UnclaimedWallet \<comment> \<open>"Can't withdraw from unclaimed wallet ..."\<close>
  | AnotherBlockchainWallet \<comment> \<open>"Can't withdraw from another Blockchain wallet"\<close>
  | NegativeAmount \<comment> \<open>"Can't withdraw negative amounts of PAW"\<close>
  | InsufficientBalanceError
  | ReplacedByNewRequest \<comment> \<open>"Old pending withdrawal request replaced by a new one"\<close>
  | MissingPawAddress \<comment> \<open>"Missing PAW address"\<close>
  | TypeError \<comment> \<open>a property read on \<^verbatim>\<open>undefined\<close>\<close>
  | InvalidArgument \<comment> \<open>ethers refuses a string or a number\<close>

text \<open>
  The operations of \<^verbatim>\<open>models/operations\<close>. \<^verbatim>\<open>PawUserWithdrawal\<close> and \<^verbatim>\<open>SwapWPAWToPaw\<close>
  both extend \<^verbatim>\<open>Withdrawal\<close>. The fields carry a prefix, the source's names being used
  for variables below. Timestamps and attempt counts are JavaScript numbers that hold
  integers.
\<close>

record Withdrawal =
  w_pawWallet :: string
  w_amount :: string
  w_blockchainWallet :: string
  w_timestamp :: int

record PawUserWithdrawal = Withdrawal +
  w_signature :: string
  w_attempt :: int

record SwapWPAWToPaw = Withdrawal +
  s_wpawBalance :: string
  s_hash :: string

text \<open>
  \<^verbatim>\<open>ethers.utils\<close>, a library outside the repository, as the functions the bridge calls.
  \<open>None\<close> is a call that throws.
\<close>

record ethers =
  verifyMessage :: "string \<Rightarrow> string \<Rightarrow> string option"
  getAddress :: "string \<Rightarrow> string option"
  parseEther :: "string \<Rightarrow> int option"
  BigNumber_from :: "string \<Rightarrow> int option"

section \<open>The Redis store\<close>

text \<open>
  The key space of \<^verbatim>\<open>RedisUsersDepositsStorage\<close>, one field per family of keys:
  \<^item> \<open>paw_balance\<close>: the keys \<^verbatim>\<open>paw-balance:<address>\<close>, indexed by what follows the
    prefix. The value is written by \<^verbatim>\<open>balance.toString()\<close> and read back by
    \<^verbatim>\<open>BigNumber.from\<close>; it is kept as the integer that decimal string denotes.
  \<^item> \<open>claim_keys\<close>: every key that starts with \<^verbatim>\<open>claims:\<close>, pending and confirmed ones,
    as full key strings in the order the server lists them. Each holds the value 1.
  \<^item> \<open>zsets\<close>: the sorted sets (\<^verbatim>\<open>deposits:\<close>, \<^verbatim>\<open>withdrawals:\<close>, \<^verbatim>\<open>swaps:...\<close>), by full
    key: the members with their scores. A member occurs once; the list keeps the order
    of insertion.
  \<^item> \<open>audit\<close>: the hashes \<^verbatim>\<open>audit:<key>\<close>, indexed by what follows the prefix.
  \<^item> \<open>latest_block\<close>: the key \<^verbatim>\<open>blockchain:blocks:latest\<close>, as the integer its string
    denotes.

  Expiry of keys (the 5 minutes of a pending claim) and the Redlock mutexes are not part
  of the state: every operation below runs alone and to its end, its lock is free when
  it starts, and a promise that the source starts without awaiting it has run when the
  operation returns.
\<close>

datatype field = Str string | Num int

record redis =
  paw_balance :: "string \<rightharpoonup> int"
  claim_keys :: "string list"
  zsets :: "string \<Rightarrow> (string \<times> int) list"
  audit :: "string \<rightharpoonup> (string \<rightharpoonup> field)"
  latest_block :: "int option"

definition empty_redis :: redis where
  "empty_redis =
     \<lparr>paw_balance = Map.empty, claim_keys = [], zsets = (\<lambda>k. []), audit = Map.empty,
      latest_block = None\<rparr>"

text \<open>
  \<^verbatim>\<open>KEYS pattern\<close>. The patterns of the source are a fixed prefix followed by \<^verbatim>\<open>*\<close>, or a
  full key. No other glob character is interpreted.
\<close>

definition glob_match :: "string \<Rightarrow> string \<Rightarrow> bool" where
  "glob_match pat k =
     (if pat \<noteq> [] \<and> last pat = CHR ''*'' then prefix (butlast pat) k else k = pat)"

definition redis_keys :: "redis \<Rightarrow> string \<Rightarrow> string list" where
  "redis_keys r pat = filter (glob_match pat) (claim_keys r)"

text \<open>\<^verbatim>\<open>SET key 1\<close> on a key of the \<^verbatim>\<open>claims:\<close> family.\<close>

definition redis_set_claim :: "redis \<Rightarrow> string \<Rightarrow> redis" where
  "redis_set_claim r k =
     (if k \<in> set (claim_keys r) then r else r\<lparr>claim_keys := claim_keys r @ [k]\<rparr>)"

text \<open>\<^verbatim>\<open>ZADD key score member\<close>: a member already there only gets the new score.\<close>

fun zadd_list :: "int \<Rightarrow> string \<Rightarrow> (string \<times> int) list \<Rightarrow> (string \<times> int) list" where
  "zadd_list score m [] = [(m, score)]"
| "zadd_list score m (e # es) =
     (if fst e = m then (m, score) # es else e # zadd_list score m es)"

definition zadd :: "redis \<Rightarrow> string \<Rightarrow> int \<Rightarrow> string \<Rightarrow> redis" where
  "zadd r key score m = r\<lparr>zsets := (zsets r)(key := zadd_list score m (zsets r key))\<rparr>"

text \<open>\<^verbatim>\<open>ZRANK key member\<close> is null exactly when the member is not in the set.\<close>

definition zrank_found :: "redis \<Rightarrow> string \<Rightarrow> string \<Rightarrow> bool" where
  "zrank_found r key m = (m \<in> set (map fst (zsets r key)))"

text \<open>\<^verbatim>\<open>ZCOUNT key lo hi\<close>.\<close>

definition zcount :: "redis \<Rightarrow> string \<Rightarrow> int \<Rightarrow> int \<Rightarrow> nat" where
  "zcount r key lo hi = length (filter (\<lambda>e. lo \<le> snd e \<and> snd e \<le> hi) (zsets r key))"

text \<open>\<^verbatim>\<open>HSET key {fields}\<close>: the fields given replace or extend the ones stored.\<close>

definition hset :: "redis \<Rightarrow> string \<Rightarrow> (string \<times> field) list \<Rightarrow> redis" where
  "hset r key flds =
     r\<lparr>audit := (audit r)(key \<mapsto>
        (case audit r key of None \<Rightarrow> map_of flds | Some old \<Rightarrow> old ++ map_of flds))\<rparr>"

section \<open>RedisUsersDepositsStorage\<close>

definition storage_getUserAvailableBalance :: "redis \<Rightarrow> string \<Rightarrow> int" where
  "storage_getUserAvailableBalance r from =
     (case paw_balance r (toLowerCase from) of
        None \<Rightarrow> 0
      | Some rawAmount \<Rightarrow> rawAmount)"

definition storage_containsUserDepositTransaction :: "redis \<Rightarrow> string \<Rightarrow> string \<Rightarrow> bool" where
  "storage_containsUserDepositTransaction r pawAddress hash =
     zrank_found r (''deposits:'' @ toLowerCase pawAddress) hash"

definition storage_storeUserDeposit :: "redis \<Rightarrow> string \<Rightarrow> int \<Rightarrow> int \<Rightarrow> string \<Rightarrow> redis" where
  "storage_storeUserDeposit r pawAddress' amount timestamp hash =
     (let pawAddress = toLowerCase pawAddress';
          balance = (case paw_balance r pawAddress of Some rawBalance \<Rightarrow> rawBalance | None \<Rightarrow> 0);
          balance = balance + amount;
          r1 = r\<lparr>paw_balance := (paw_balance r)(pawAddress \<mapsto> balance)\<rparr>;
          r2 = zadd r1 (''deposits:'' @ pawAddress) timestamp hash
      in hset r2 hash
           [(''type'', Str ''deposit''), (''hash'', Str hash), (''amount'', Num amount),
            (''timestamp'', Num timestamp)])"

definition storage_hasPendingClaim :: "redis \<Rightarrow> string \<Rightarrow> bool" where
  "storage_hasPendingClaim r pawAddress =
     (let pendingClaims = redis_keys r (''claims:pending:'' @ toLowerCase pawAddress @ '':*'')
      in length pendingClaims > 0)"

text \<open>
  \<open>exec_throws\<close> tells whether the \<^verbatim>\<open>MULTI ... EXEC\<close> of the call throws; the \<^verbatim>\<open>catch\<close>
  of the source then answers false, and nothing was written.
\<close>

definition storage_storePendingClaim :: "bool \<Rightarrow> redis \<Rightarrow> string \<Rightarrow> string \<Rightarrow> bool \<times> redis" where
  "storage_storePendingClaim exec_throws r pawAddress blockchainAddress =
     (let key = ''claims:pending:'' @ toLowerCase pawAddress @ '':'' @ toLowerCase blockchainAddress
      in if exec_throws then (False, r) else (True, redis_set_claim r key))"

definition storage_isClaimed :: "redis \<Rightarrow> string \<Rightarrow> bool" where
  "storage_isClaimed r pawAddress =
     (let claims = redis_keys r (''claims:'' @ toLowerCase pawAddress @ '':*'')
      in length claims > 0)"

definition storage_hasClaim :: "redis \<Rightarrow> string \<Rightarrow> string \<Rightarrow> bool" where
  "storage_hasClaim r pawAddress blockchainAddress =
     (let pendingClaims =
            redis_keys r (''claims:'' @ toLowerCase pawAddress @ '':'' @ toLowerCase blockchainAddress)
      in length pendingClaims > 0)"

text \<open>
  \<^verbatim>\<open>pendingClaims[0]\<close> is \<^verbatim>\<open>undefined\<close> when no key matches, and \<^verbatim>\<open>.replace\<close> on it throws.
  The pending key is left in place.
\<close>

definition storage_confirmClaim :: "redis \<Rightarrow> string \<Rightarrow> error + redis" where
  "storage_confirmClaim r pawAddress =
     (case redis_keys r (''claims:pending:'' @ toLowerCase pawAddress @ '':*'') of
        [] \<Rightarrow> Inl TypeError
      | k # _ \<Rightarrow> Inr (redis_set_claim r (replace_first '':pending'' [] k)))"

definition storage_storeUserWithdrawal :: "redis \<Rightarrow> string \<Rightarrow> int \<Rightarrow> int \<Rightarrow> string \<Rightarrow> redis" where
  "storage_storeUserWithdrawal r pawAddress' amount timestamp hash =
     (let pawAddress = toLowerCase pawAddress';
          balance = (case paw_balance r pawAddress of Some rawBalance \<Rightarrow> rawBalance | None \<Rightarrow> 0);
          balance = balance - amount;
          r1 = r\<lparr>paw_balance := (paw_balance r)(pawAddress \<mapsto> balance)\<rparr>;
          r2 = zadd r1 (''withdrawals:'' @ pawAddress) timestamp hash
      in hset r2 hash
           [(''type'', Str ''withdrawal''), (''hash'', Str hash), (''amount'', Num amount),
            (''timestamp'', Num timestamp)])"

definition storage_containsUserWithdrawalRequest :: "redis \<Rightarrow> string \<Rightarrow> int \<Rightarrow> bool" where
  "storage_containsUserWithdrawalRequest r pawAddress timestamp =
     (let isAlreadyStored = zcount r (''withdrawals:'' @ toLowerCase pawAddress) timestamp timestamp
      in isAlreadyStored = 1)"

definition storage_swapToPawWasAlreadyDone :: "redis \<Rightarrow> SwapWPAWToPaw \<Rightarrow> bool" where
  "storage_swapToPawWasAlreadyDone r swap =
     zrank_found r (''swaps:wpaw-to-paw:'' @ toLowerCase (w_blockchainWallet swap)) (s_hash swap)"

text \<open>
  \<^verbatim>\<open>storeUserSwapToPaw\<close>. An empty \<^verbatim>\<open>pawWallet\<close> is falsy. The balance update sits in a
  \<^verbatim>\<open>try\<close> whose \<^verbatim>\<open>catch\<close> only logs: when \<^verbatim>\<open>parseEther\<close> throws nothing is written and the
  call still returns.
\<close>

definition storage_storeUserSwapToPaw :: "ethers \<Rightarrow> redis \<Rightarrow> SwapWPAWToPaw \<Rightarrow> error + redis" where
  "storage_storeUserSwapToPaw lib r swap =
     (if w_pawWallet swap = [] then Inl MissingPawAddress
      else if storage_swapToPawWasAlreadyDone r swap then Inr r
      else
        (case parseEther lib (w_amount swap) of
           None \<Rightarrow> Inr r
         | Some a \<Rightarrow>
             (let pawAddress = toLowerCase (w_pawWallet swap);
                  balance = (case paw_balance r pawAddress of Some rawBalance \<Rightarrow> rawBalance | None \<Rightarrow> 0);
                  balance = balance + a;
                  r1 = r\<lparr>paw_balance := (paw_balance r)(pawAddress \<mapsto> balance)\<rparr>;
                  r2 = zadd r1 (''swaps:wpaw-to-paw:'' @ toLowerCase (w_blockchainWallet swap))
                         (w_timestamp swap * 1000) (s_hash swap)
              in Inr (hset r2 (s_hash swap)
                   [(''type'', Str ''swap-to-paw''), (''hash'', Str (s_hash swap)),
                    (''pawAddress'', Str pawAddress), (''amount'', Num a),
                    (''timestamp'', Num (w_timestamp swap * 1000))]))))"



section \<open>UsersDepositsService\<close>

definition service_getUserAvailableBalance :: "redis \<Rightarrow> string \<Rightarrow> int promise" where
  "service_getUserAvailableBalance r from = Resolved (storage_getUserAvailableBalance r from)"

definition service_storeUserDeposit :: "redis \<Rightarrow> string \<Rightarrow> int \<Rightarrow> int \<Rightarrow> string \<Rightarrow> redis" where
  "service_storeUserDeposit r pawAddress amount timestamp hash =
     (if storage_containsUserDepositTransaction r pawAddress hash then r
      else storage_storeUserDeposit r pawAddress amount timestamp hash)"


definition service_hasPendingClaim :: "redis \<Rightarrow> string \<Rightarrow> bool promise" where
  "service_hasPendingClaim r pawAddress = Resolved (storage_hasPendingClaim r pawAddress)"

definition service_storePendingClaim :: "bool \<Rightarrow> redis \<Rightarrow> string \<Rightarrow> string \<Rightarrow> bool \<times> redis" where
  "service_storePendingClaim exec_throws r pawAddress blockchainAddress =
     (if storage_hasPendingClaim r pawAddress then (False, r)
      else storage_storePendingClaim exec_throws r pawAddress blockchainAddress)"

definition service_isClaimed :: "redis \<Rightarrow> string \<Rightarrow> bool promise" where
  "service_isClaimed r pawAddress = Resolved (storage_isClaimed r pawAddress)"

definition service_hasClaim :: "redis \<Rightarrow> string \<Rightarrow> string \<Rightarrow> bool promise" where
  "service_hasClaim r pawAddress blockchainAddress =
     Resolved (storage_hasClaim r pawAddress blockchainAddress)"

definition service_confirmClaim :: "redis \<Rightarrow> string \<Rightarrow> error + redis" where
  "service_confirmClaim r pawAddress = storage_confirmClaim r pawAddress"

definition service_containsUserWithdrawalRequest :: "redis \<Rightarrow> 'a Withdrawal_scheme \<Rightarrow> bool" where
  "service_containsUserWithdrawalRequest r withdrawal =
     storage_containsUserWithdrawalRequest r (w_pawWallet withdrawal) (w_timestamp withdrawal)"

definition service_storeUserWithdrawal :: "redis \<Rightarrow> string \<Rightarrow> int \<Rightarrow> int \<Rightarrow> string \<Rightarrow> redis" where
  "service_storeUserWithdrawal r pawAddress amount timestamp hash =
     (if storage_containsUserWithdrawalRequest r pawAddress timestamp then r
      else storage_storeUserWithdrawal r pawAddress amount timestamp hash)"

definition service_storeUserSwapToPaw :: "ethers \<Rightarrow> redis \<Rightarrow> SwapWPAWToPaw \<Rightarrow> error + redis" where
  "service_storeUserSwapToPaw lib r event = storage_storeUserSwapToPaw lib r event"

definition service_containsUserSwapToPaw :: "redis \<Rightarrow> SwapWPAWToPaw \<Rightarrow> bool" where
  "service_containsUserSwapToPaw r event = storage_swapToPawWasAlreadyDone r event"

section \<open>The processing queue\<close>

datatype OperationsNames = PawDeposit | PawWithdrawal | SwapToWPAW | SwapToPAW

fun operation_name :: "OperationsNames \<Rightarrow> string" where
  "operation_name PawDeposit = ''paw-deposit''"
| "operation_name PawWithdrawal = ''paw-withdrawal''"
| "operation_name SwapToWPAW = ''swap-paw-to-wpaw''"
| "operation_name SwapToPAW = ''swap-wpaw-to-paw''"

text \<open>
  \<^verbatim>\<open>PawUserDeposit\<close>. Its amount travels as the decimal string \<^verbatim>\<open>formatEther\<close> prints and
  the deposit processor reads it back with \<^verbatim>\<open>parseEther\<close>; it is kept as that value.
\<close>

record PawUserDeposit =
  d_sender :: string
  d_amount :: int
  d_timestamp :: int
  d_hash :: string

datatype Operation =
    DepositData PawUserDeposit
  | WithdrawalData PawUserWithdrawal
  | SwapToPawData SwapWPAWToPaw

text \<open>
  A call of \<^verbatim>\<open>Queue.add(name, data, opts)\<close>. The queue of a run is the list of these
  calls, oldest first. \<open>job_delay\<close> is 0 and \<open>removeOnFail\<close> is false (the queue's
  default) where the call gives none.
\<close>

record job =
  job_name :: OperationsNames
  job_data :: Operation
  jobId :: string
  job_delay :: int
  job_timestamp :: int
  removeOnFail :: bool

definition PENDING_WITHDRAWAL_RETRY_DELAY :: int where
  "PENDING_WITHDRAWAL_RETRY_DELAY = 1 * 60 * 1000"

definition addPawUserDeposit :: "job list \<Rightarrow> PawUserDeposit \<Rightarrow> job list" where
  "addPawUserDeposit q deposit =
     q @ [\<lparr>job_name = PawDeposit, job_data = DepositData deposit,
            jobId = operation_name PawDeposit @ ''-'' @ d_sender deposit @ ''-'' @ d_hash deposit,
            job_delay = 0, job_timestamp = d_timestamp deposit, removeOnFail = False\<rparr>]"

text \<open>
  \<^verbatim>\<open>addPawUserPendingWithdrawal\<close>. \<^verbatim>\<open>const withdrawal = _withdrawal\<close> is the caller's
  object, so the assignment to \<^verbatim>\<open>withdrawal.attempt\<close> changes it for the caller too: the
  changed withdrawal is returned with the queue.
\<close>

definition addPawUserPendingWithdrawal ::
  "job list \<Rightarrow> PawUserWithdrawal \<Rightarrow> PawUserWithdrawal \<times> job list" where
  "addPawUserPendingWithdrawal q withdrawal' =
     (let withdrawal = withdrawal'\<lparr>w_attempt := w_attempt withdrawal' + 1\<rparr>
      in (withdrawal,
          q @ [\<lparr>job_name = PawWithdrawal, job_data = WithdrawalData withdrawal,
                 jobId = ''pending-'' @ operation_name PawWithdrawal @ ''-'' @ w_pawWallet withdrawal
                         @ ''-'' @ Number_toString (w_timestamp withdrawal)
                         @ ''-attempt-'' @ Number_toString (w_attempt withdrawal),
                 job_delay = w_attempt withdrawal * PENDING_WITHDRAWAL_RETRY_DELAY,
                 job_timestamp = w_timestamp withdrawal, removeOnFail = True\<rparr>]))"

section \<open>The bridge and what surrounds it\<close>

record BlacklistRecord =
  b_address :: string
  b_alias :: string
  b_type :: string

text \<open>
  What the outside answers during one operation: the ethers library, the blacklist
  provider, whether the Redis transaction of \<^verbatim>\<open>storePendingClaim\<close> throws, and the Paw
  node (the hash it returns for a send, the raw balances of a wallet).
\<close>

record env =
  lib :: ethers
  isBlacklisted :: "string \<Rightarrow> BlacklistRecord option"
  exec_throws :: bool
  sendPawWithdrawalFromSeed :: "string \<Rightarrow> int \<Rightarrow> string"
  getAccountBalanceRaw :: "string \<Rightarrow> string"
  getAccountBalanceAndPendingRaw :: "string \<Rightarrow> string \<times> string"

text \<open>
  The configuration. The minimum is the amount \<^verbatim>\<open>parseEther\<close> reads from the configured
  decimal string, and the ratio the number \<^verbatim>\<open>parseFloat\<close> reads from its string.
\<close>

record config =
  PawUsersDepositsHotWallet :: string
  PawUsersDepositsColdWallet :: string
  PawUsersDepositsHotWalletMinimum :: int
  PawUsersDepositsHotWalletToColdWalletRatio :: rat

text \<open>
  The state an operation works on: the Redis store, the calls made to the Paw node
  (\<open>received\<close>: the hashes given to \<^verbatim>\<open>receivePawDepositsForSeed\<close>; \<open>sent\<close>: address and
  amount of each \<^verbatim>\<open>sendPawWithdrawalFromSeed\<close>), and the calls made to the queue.
\<close>

record world =
  store :: redis
  received :: "string list"
  sent :: "(string \<times> int) list"
  queue :: "job list"

section \<open>Paw: the calls to the node\<close>

definition receiveTransaction :: "world \<Rightarrow> string \<Rightarrow> world" where
  "receiveTransaction w hash = w\<lparr>received := received w @ [hash]\<rparr>"

definition sendPaw :: "env \<Rightarrow> world \<Rightarrow> string \<Rightarrow> int \<Rightarrow> string \<times> world" where
  "sendPaw e w pawAddress amount =
     (sendPawWithdrawalFromSeed e pawAddress amount, w\<lparr>sent := sent w @ [(pawAddress, amount)]\<rparr>)"

definition getBalance :: "env \<Rightarrow> string \<Rightarrow> error + int" where
  "getBalance e wallet =
     (let rawAmount = getAccountBalanceRaw e wallet
      in if rawAmount \<noteq> ''0'' then
           (case BigNumber_from (lib e) (take (length rawAmount - 9) rawAmount) of
              None \<Rightarrow> Inl InvalidArgument
            | Some balance \<Rightarrow> Inr balance)
         else Inr 0)"

definition getTotalBalance :: "env \<Rightarrow> string \<Rightarrow> error + int" where
  "getTotalBalance e wallet =
     (let (rawBalance, rawPending) = getAccountBalanceAndPendingRaw e wallet
      in case (if rawBalance \<noteq> ''0''
               then BigNumber_from (lib e) (take (length rawBalance - 9) rawBalance)
               else Some 0) of
           None \<Rightarrow> Inl InvalidArgument
         | Some balance \<Rightarrow>
             (case (if rawPending \<noteq> ''0''
                    then BigNumber_from (lib e) (take (length rawPending - 9) rawPending)
                    else Some 0) of
                None \<Rightarrow> Inl InvalidArgument
              | Some pending \<Rightarrow> Inr (balance + pending)))"

section \<open>Service\<close>

datatype ClaimResponse = Ok | Blacklisted | AlreadyDone | InvalidOwner | InvalidSignature | Error

definition checkSignature :: "ethers \<Rightarrow> string \<Rightarrow> string \<Rightarrow> string \<Rightarrow> error + bool" where
  "checkSignature l blockchainWallet signature expected =
     (case verifyMessage l expected signature of
        None \<Rightarrow> Inl InvalidArgument
      | Some author \<Rightarrow>
          (case getAddress l blockchainWallet of
             None \<Rightarrow> Inl InvalidArgument
           | Some sanitizedAddress \<Rightarrow> Inr (author = sanitizedAddress)))"

text \<open>The challenge a claim signs.\<close>

definition claim_challenge :: "string \<Rightarrow> string" where
  "claim_challenge pawWallet =
     ''I hereby claim that the PAW address '' @ dquote @ pawWallet @ dquote @ '' is mine''"

definition claim ::
  "env \<Rightarrow> redis \<Rightarrow> string \<Rightarrow> string \<Rightarrow> string \<Rightarrow> (error + ClaimResponse) \<times> redis" where
  "claim e r pawWallet blockchainWallet signature =
     (case checkSignature (lib e) blockchainWallet signature (claim_challenge pawWallet) of
        Inl err \<Rightarrow> (Inl err, r)
      | Inr valid \<Rightarrow>
          if \<not> valid then (Inr InvalidSignature, r)
          else
            (case isBlacklisted e pawWallet of
               Some blacklisted \<Rightarrow> (Inr Blacklisted, r)
             | None \<Rightarrow>
                 if await (service_hasClaim r pawWallet blockchainWallet) then (Inr AlreadyDone, r)
                 else if \<not> await (service_hasPendingClaim r pawWallet) then
                   (let (stored, r') =
                          service_storePendingClaim (exec_throws e) r pawWallet blockchainWallet
                    in (Inr (if stored then Ok else Error), r'))
                 else (Inr InvalidOwner, r)))"

text \<open>The challenge a withdrawal signs.\<close>

definition withdrawal_challenge :: "string \<Rightarrow> string \<Rightarrow> string" where
  "withdrawal_challenge amount pawWallet =
     ''Withdraw '' @ amount @ '' PAW to my wallet '' @ dquote @ pawWallet @ dquote"

text \<open>
  \<^verbatim>\<open>eventuallySendPaw\<close> answers \<^verbatim>\<open>{pending, hash}\<close>; the hash is \<open>None\<close> where the source
  leaves it undefined. The withdrawal comes back as \<^verbatim>\<open>addPawUserPendingWithdrawal\<close> left
  it.
\<close>

definition eventuallySendPaw ::
  "config \<Rightarrow> env \<Rightarrow> world \<Rightarrow> PawUserWithdrawal
     \<Rightarrow> (error + bool \<times> string option) \<times> PawUserWithdrawal \<times> world" where
  "eventuallySendPaw cfg e w withdrawal =
     (case parseEther (lib e) (w_amount withdrawal) of
        None \<Rightarrow> (Inl InvalidArgument, withdrawal, w)
      | Some amount \<Rightarrow>
          (case getBalance e (PawUsersDepositsHotWallet cfg) of
             Inl err \<Rightarrow> (Inl err, withdrawal, w)
           | Inr hotWalletBalance \<Rightarrow>
               if hotWalletBalance < amount then
                 (let (withdrawal', q) = addPawUserPendingWithdrawal (queue w) withdrawal
                  in (Inr (True, None), withdrawal', w\<lparr>queue := q\<rparr>))
               else
                 (let (hash, w') = sendPaw e w (w_pawWallet withdrawal) amount
                  in (Inr (False, Some hash), withdrawal, w'))))"

text \<open>
  \<^verbatim>\<open>processWithdrawPAW(withdrawal, signature?)\<close>. An absent or empty signature is falsy
  and skips the check of the signature. The two calls \<^verbatim>\<open>isClaimed\<close> and \<^verbatim>\<open>hasClaim\<close> stand
  in their conditions without \<^verbatim>\<open>await\<close>.
\<close>

definition processWithdrawPAW ::
  "config \<Rightarrow> env \<Rightarrow> world \<Rightarrow> PawUserWithdrawal \<Rightarrow> string option
     \<Rightarrow> (error + string) \<times> PawUserWithdrawal \<times> world" where
  "processWithdrawPAW cfg e w withdrawal signature =
     (let pawWallet = w_pawWallet withdrawal; amount = w_amount withdrawal;
          blockchainWallet = w_blockchainWallet withdrawal; timestamp = w_timestamp withdrawal
      in
      if service_containsUserWithdrawalRequest (store w) withdrawal
      then (Inl AlreadyProcessed, withdrawal, w)
      else
        (case (case signature of
                 None \<Rightarrow> Inr True
               | Some sg \<Rightarrow>
                   if sg = [] then Inr True
                   else checkSignature (lib e) blockchainWallet sg
                          (withdrawal_challenge amount pawWallet)) of
           Inl err \<Rightarrow> (Inl err, withdrawal, w)
         | Inr valid \<Rightarrow>
             if \<not> valid then (Inl InvalidSignatureError, withdrawal, w)
             else if \<not> truthy (service_isClaimed (store w) pawWallet)
             then (Inl UnclaimedWallet, withdrawal, w)
             else if \<not> truthy (service_hasClaim (store w) pawWallet blockchainWallet)
             then (Inl AnotherBlockchainWallet, withdrawal, w)
             else
               (case parseEther (lib e) amount of
                  None \<Rightarrow> (Inl InvalidArgument, withdrawal, w)
                | Some withdrawnAmount \<Rightarrow>
                    if withdrawnAmount < 0 then (Inl NegativeAmount, withdrawal, w)
                    else
                      (let availableBalance =
                             await (service_getUserAvailableBalance (store w) pawWallet)
                       in if \<not> (availableBalance \<ge> withdrawnAmount)
                          then (Inl InsufficientBalanceError, withdrawal, w)
                          else
                            (case eventuallySendPaw cfg e w withdrawal of
                               (Inl err, withdrawal', w') \<Rightarrow> (Inl err, withdrawal', w')
                             | (Inr (pending, None), withdrawal', w') \<Rightarrow>
                                 (Inr [], withdrawal', w')
                             | (Inr (pending, Some hash), withdrawal', w') \<Rightarrow>
                                 if pending \<or> hash = [] then (Inr [], withdrawal', w')
                                 else
                                   (Inr hash, withdrawal',
                                    w'\<lparr>store := service_storeUserWithdrawal (store w')
                                         pawWallet withdrawnAmount timestamp hash\<rparr>))))))"

text \<open>What a withdrawal job returns when it completes.\<close>

record withdrawal_result =
  r_pawWallet :: string
  r_withdrawal :: string
  r_balance :: int
  r_transaction :: string

text \<open>
  \<^verbatim>\<open>withdrawalProcessor(signature)\<close> applied to a job. \<^verbatim>\<open>job.data\<close> is the object that
  \<^verbatim>\<open>processWithdrawPAW\<close> hands down to the queue, so \<^verbatim>\<open>withdrawal.attempt\<close> is read here
  as the queue left it.
\<close>

definition withdrawalProcessor ::
  "config \<Rightarrow> env \<Rightarrow> string option \<Rightarrow> world \<Rightarrow> PawUserWithdrawal
     \<Rightarrow> (error + withdrawal_result) \<times> world" where
  "withdrawalProcessor cfg e signature w job_data' =
     (case processWithdrawPAW cfg e w job_data' signature of
        (Inl err, withdrawal, w') \<Rightarrow> (Inl err, w')
      | (Inr hash, withdrawal, w') \<Rightarrow>
          if hash \<noteq> [] then
            (Inr \<lparr>r_pawWallet = w_pawWallet withdrawal, r_withdrawal = w_amount withdrawal,
                  r_balance = await (service_getUserAvailableBalance (store w') (w_pawWallet withdrawal)),
                  r_transaction = hash\<rparr>, w')
          else if w_attempt withdrawal = 1 then
            (Inr \<lparr>r_pawWallet = w_pawWallet withdrawal, r_withdrawal = w_amount withdrawal,
                  r_balance = await (service_getUserAvailableBalance (store w') (w_pawWallet withdrawal)),
                  r_transaction = []\<rparr>, w')
          else (Inl ReplacedByNewRequest, w'))"

text \<open>The processor registered for \<^verbatim>\<open>OperationsNames.PawWithdrawal\<close>.\<close>

definition processPawWithdrawal ::
  "config \<Rightarrow> env \<Rightarrow> world \<Rightarrow> PawUserWithdrawal \<Rightarrow> (error + withdrawal_result) \<times> world" where
  "processPawWithdrawal cfg e w withdrawal =
     withdrawalProcessor cfg e (Some (w_signature withdrawal)) w withdrawal"

text \<open>\<^verbatim>\<open>processSwapToPAW\<close> answers \<^verbatim>\<open>{hash, wpawBalance}\<close>.\<close>

definition processSwapToPAW ::
  "env \<Rightarrow> world \<Rightarrow> SwapWPAWToPaw \<Rightarrow> (error + string \<times> string) \<times> world" where
  "processSwapToPAW e w swap =
     (if service_containsUserSwapToPaw (store w) swap
      then (Inr (s_hash swap, s_wpawBalance swap), w)
      else
        (case service_storeUserSwapToPaw (lib e) (store w) swap of
           Inl err \<Rightarrow> (Inl err, w)
         | Inr r' \<Rightarrow> (Inr (s_hash swap, s_wpawBalance swap), w\<lparr>store := r'\<rparr>)))"

section \<open>Paw: deposits\<close>

definition queueUserDeposit :: "world \<Rightarrow> string \<Rightarrow> int \<Rightarrow> int \<Rightarrow> string \<Rightarrow> world" where
  "queueUserDeposit w sender amount timestamp hash =
     w\<lparr>queue := addPawUserDeposit (queue w)
          \<lparr>d_sender = sender, d_amount = amount, d_timestamp = timestamp, d_hash = hash\<rparr>\<rparr>"

definition eventuallySendToColdWallet ::
  "config \<Rightarrow> env \<Rightarrow> world \<Rightarrow> int \<Rightarrow> (error + unit) \<times> world" where
  "eventuallySendToColdWallet cfg e w deposit =
     (case getTotalBalance e (PawUsersDepositsHotWallet cfg) of
        Inl err \<Rightarrow> (Inl err, w)
      | Inr hotWalletBalance \<Rightarrow>
          (let minimumPawInHotWallet = PawUsersDepositsHotWalletMinimum cfg;
               amountAboveMinimum = hotWalletBalance - minimumPawInHotWallet
           in if amountAboveMinimum \<le> 0 then (Inr (), w)
              else
                (let amount = (if amountAboveMinimum > deposit then deposit else amountAboveMinimum);
                     rounded = Math_round (parseInt_formatUnits amount)
                 in case BigNumber_from_number
                           (Number_value (100 - PawUsersDepositsHotWalletToColdWalletRatio cfg)) of
                      None \<Rightarrow> (Inl InvalidArgument, w)
                    | Some targetRatio \<Rightarrow>
                        (case parseEther_toString rounded of
                           None \<Rightarrow> (Inl InvalidArgument, w)
                         | Some amount \<Rightarrow>
                             (let amount = amount div 100 * targetRatio
                              in if amount = 0 then (Inr (), w)
                                 else (Inr (),
                                       snd (sendPaw e w (PawUsersDepositsColdWallet cfg) amount)))))))"

text \<open>
  \<^verbatim>\<open>processUserDeposit\<close>. The test of the decimals is done on JavaScript numbers:
  \<^verbatim>\<open>number\<close> is the amount read by \<^verbatim>\<open>parseFloat\<close> and \<^verbatim>\<open>rounded\<close> is
  \<^verbatim>\<open>Math.round(number * 100) / 100\<close>, each operation giving the nearest number.
\<close>

definition processUserDeposit ::
  "config \<Rightarrow> env \<Rightarrow> world \<Rightarrow> string \<Rightarrow> int \<Rightarrow> int \<Rightarrow> string \<Rightarrow> (error + bool) \<times> world" where
  "processUserDeposit cfg e w sender amount timestamp hash =
     (case (if await (service_hasPendingClaim (store w) sender)
            then service_confirmClaim (store w) sender
            else Inr (store w)) of
        Inl err \<Rightarrow> (Inl err, w)
      | Inr r1 \<Rightarrow>
          (let w1 = receiveTransaction (w\<lparr>store := r1\<rparr>) hash
           in if \<not> await (service_isClaimed (store w1) sender)
              then (Inr False, snd (sendPaw e w1 sender amount))
              else
                (let number = parseFloat_formatEther amount;
                     rounded = Number_value (Math_round (Number_value (number * 100)) / 100)
                 in if number \<noteq> rounded
                    then (Inr False, snd (sendPaw e w1 sender amount))
                    else
                      (let w2 = w1\<lparr>store := service_storeUserDeposit (store w1)
                                                 sender amount timestamp hash\<rparr>
                       in case eventuallySendToColdWallet cfg e w2 amount of
                            (Inl err, w3) \<Rightarrow> (Inl err, w3)
                          | (Inr u, w3) \<Rightarrow> (Inr True, w3)))))"

text \<open>
  A block of \<^verbatim>\<open>accountsPending.blocks[wallet]\<close>: its hash (the key), its raw amount, the
  account it comes from, and what \<^verbatim>\<open>Date.now()\<close> gives when the loop comes to it.
\<close>

record pending_block =
  p_hash :: string
  p_amount :: string
  p_source :: string
  p_now :: int

text \<open>
  The body of the loop of \<^verbatim>\<open>processPendingTransactions\<close>, for one hash. The flag tells
  whether the body left the function with \<^verbatim>\<open>return\<close>. An exception (the amount that
  \<^verbatim>\<open>BigNumber.from\<close> refuses) is caught by the \<^verbatim>\<open>try\<close> of the body, which only logs it.
\<close>

definition pendingTransactionBody :: "config \<Rightarrow> env \<Rightarrow> pending_block \<Rightarrow> world \<Rightarrow> bool \<times> world" where
  "pendingTransactionBody cfg e transaction w =
     (let hash = p_hash transaction; amount = p_amount transaction; sender = p_source transaction
      in if length amount < 9 then (True, receiveTransaction w hash)
         else
           (case BigNumber_from (lib e) (take (length amount - 9) amount) of
              None \<Rightarrow> (False, w)
            | Some pawAmount \<Rightarrow>
                (let timestamp = p_now transaction
                 in if sender = PawUsersDepositsHotWallet cfg \<or> sender = PawUsersDepositsColdWallet cfg
                    then (True, receiveTransaction w hash)
                    else (False, queueUserDeposit w sender pawAmount timestamp hash))))"

text \<open>
  The loop over the hashes: a \<^verbatim>\<open>return\<close> in the body ends it, and the blocks that follow
  are not looked at.
\<close>

fun pendingTransactionsLoop :: "config \<Rightarrow> env \<Rightarrow> pending_block list \<Rightarrow> world \<Rightarrow> world" where
  "pendingTransactionsLoop cfg e [] w = w"
| "pendingTransactionsLoop cfg e (transaction # rest) w =
     (case pendingTransactionBody cfg e transaction w of
        (True, w') \<Rightarrow> w'
      | (False, w') \<Rightarrow> pendingTransactionsLoop cfg e rest w')"

text \<open>
  \<^verbatim>\<open>processPendingTransactions\<close>; \<open>None\<close> when the node lists no block for the wallet.
\<close>

definition processPendingTransactions ::
  "config \<Rightarrow> env \<Rightarrow> world \<Rightarrow> pending_block list option \<Rightarrow> world" where
  "processPendingTransactions cfg e w walletPendingTransactions =
     (case walletPendingTransactions of
        None \<Rightarrow> w
      | Some transactions \<Rightarrow> pendingTransactionsLoop cfg e transactions w)"

text \<open>
  A confirmation from the websocket: \<^verbatim>\<open>message.account\<close>,
  \<^verbatim>\<open>message.block.link_as_account\<close>, \<^verbatim>\<open>message.amount\<close>, \<^verbatim>\<open>message.hash\<close>, and what
  \<^verbatim>\<open>Date.now()\<close> gives.
\<close>

record notification =
  n_account :: string
  n_link_as_account :: string
  n_amount :: string
  n_hash :: string
  n_now :: int

definition wsMessageReceived ::
  "config \<Rightarrow> env \<Rightarrow> world \<Rightarrow> notification \<Rightarrow> (error + unit) \<times> world" where
  "wsMessageReceived cfg e w msg =
     (let sender = n_account msg; receiver = n_link_as_account msg; rawAmount = n_amount msg
      in case BigNumber_from (lib e) (take (length rawAmount - 9) rawAmount) of
           None \<Rightarrow> (Inl InvalidArgument, w)
         | Some amount \<Rightarrow>
             (let timestamp = n_now msg; hash = n_hash msg
              in if sender = PawUsersDepositsHotWallet cfg \<or> sender = PawUsersDepositsColdWallet cfg
                 then (Inr (), receiveTransaction w hash)
                 else if PawUsersDepositsHotWallet cfg \<noteq> receiver then (Inr (), w)
                 else (Inr (), queueUserDeposit w sender amount timestamp hash)))"

text \<open>
  The pending blocks that the sweep only receives: those with a raw amount of fewer than
  9 digits, and those with a readable amount sent by the hot or the cold wallet.
\<close>

definition only_received :: "config \<Rightarrow> env \<Rightarrow> pending_block \<Rightarrow> bool" where
  "only_received cfg e b =
     (length (p_amount b) < 9
      \<or> (BigNumber_from (lib e) (take (length (p_amount b) - 9) (p_amount b)) \<noteq> None
         \<and> (p_source b = PawUsersDepositsHotWallet cfg \<or> p_source b = PawUsersDepositsColdWallet cfg)))"

text \<open>
  The confirmation the websocket would have delivered for a pending block of the hot
  wallet.
\<close>

definition confirmation_of :: "config \<Rightarrow> pending_block \<Rightarrow> notification" where
  "confirmation_of cfg b =
     \<lparr>n_account = p_source b, n_link_as_account = PawUsersDepositsHotWallet cfg,
      n_amount = p_amount b, n_hash = p_hash b, n_now = p_now b\<rparr>"


text \<open>
  The job \<^verbatim>\<open>addPawUserPendingWithdrawal\<close> adds for a withdrawal that comes in with the
  attempt count \<open>n\<close>.
\<close>

definition pending_withdrawal_job :: "PawUserWithdrawal \<Rightarrow> job" where
  "pending_withdrawal_job withdrawal =
     \<lparr>job_name = PawWithdrawal,
      job_data = WithdrawalData (withdrawal\<lparr>w_attempt := w_attempt withdrawal + 1\<rparr>),
      jobId = ''pending-paw-withdrawal-'' @ w_pawWallet withdrawal @ ''-''
              @ Number_toString (w_timestamp withdrawal) @ ''-attempt-''
              @ Number_toString (w_attempt withdrawal + 1),
      job_delay = (w_attempt withdrawal + 1) * 60000,
      job_timestamp = w_timestamp withdrawal,
      removeOnFail = True\<rparr>"


section \<open>Scenarios\<close>

text \<open>
  Concrete surroundings for the scenarios below, in the manner of the stubs of
  \<^verbatim>\<open>test/Paw.spec.ts\<close> and \<^verbatim>\<open>test/services/Service.spec.ts\<close>: the wallets of the test, a
  minimum of 10 and a ratio of 20, and an ethers that reads the strings the scenarios
  use. A signature is written \<open>signer/message\<close>: verified against that message it gives
  the signer, and against any other message it gives an address nobody holds.
\<close>

definition test_config :: config where
  "test_config =
     \<lparr>PawUsersDepositsHotWallet = ''paw_CAFEBABE'', PawUsersDepositsColdWallet = ''paw_ILIKETHIS'',
      PawUsersDepositsHotWalletMinimum = 10 * 10 ^ 18,
      PawUsersDepositsHotWalletToColdWalletRatio = 20\<rparr>"

definition test_ethers :: ethers where
  "test_ethers =
     \<lparr>verifyMessage =
        (\<lambda>message signature.
           if signature = ''0xA/'' @ message then Some ''0xA''
           else if signature = ''0xB/'' @ message then Some ''0xB''
           else Some ''0x0''),
      getAddress = (\<lambda>a. Some a),
      parseEther =
        map_of [(''0'', 0), (''5'', 5 * 10 ^ 18), (''150'', 150 * 10 ^ 18), (''2.5'', 25 * 10 ^ 17)],
      BigNumber_from =
        map_of [(''12'', 12), (''1000000000000000000'', 10 ^ 18),
                (''100000000000000000000'', 100 * 10 ^ 18)]\<rparr>"

definition test_env :: env where
  "test_env =
     \<lparr>lib = test_ethers, isBlacklisted = (\<lambda>a. None), exec_throws = False,
      sendPawWithdrawalFromSeed = (\<lambda>a n. ''0xTHISROCKS''),
      getAccountBalanceRaw = (\<lambda>a. ''100000000000000000000000000000''),
      getAccountBalanceAndPendingRaw = (\<lambda>a. (''100000000000000000000000000000'', ''0''))\<rparr>"

definition empty_world :: world where
  "empty_world = \<lparr>store = empty_redis, received = [], sent = [], queue = []\<rparr>"

text \<open>
  A store in which \<^verbatim>\<open>paw_X\<close> is claimed by \<^verbatim>\<open>0xA\<close> and holds a balance of 200, and one in
  which \<^verbatim>\<open>paw_X\<close> holds a balance of 5 and no claim was ever made.
\<close>

definition claimed_world :: world where
  "claimed_world =
     empty_world\<lparr>store := empty_redis
       \<lparr>paw_balance := [''paw_x'' \<mapsto> 200 * 10 ^ 18], claim_keys := [''claims:paw_x:0xa'']\<rparr>\<rparr>"

definition unclaimed_world :: world where
  "unclaimed_world =
     empty_world\<lparr>store := empty_redis\<lparr>paw_balance := [''paw_x'' \<mapsto> 5 * 10 ^ 18]\<rparr>\<rparr>"

text \<open>
  The withdrawal of \<^verbatim>\<open>test/services/Service.spec.ts\<close>: 150 to \<^verbatim>\<open>paw_X\<close>, signed by
  \<^verbatim>\<open>0xA\<close>, at its \<open>n\<close>-th attempt. And a withdrawal of 5 to \<^verbatim>\<open>paw_X\<close> signed by \<^verbatim>\<open>0xB\<close>.
\<close>

definition test_withdrawal :: "int \<Rightarrow> PawUserWithdrawal" where
  "test_withdrawal n =
     \<lparr>w_pawWallet = ''paw_X'', w_amount = ''150'', w_blockchainWallet = ''0xA'',
      w_timestamp = 1700000000000,
      w_signature = ''0xA/'' @ withdrawal_challenge ''150'' ''paw_X'', w_attempt = n\<rparr>"

definition foreign_withdrawal :: PawUserWithdrawal where
  "foreign_withdrawal =
     \<lparr>w_pawWallet = ''paw_X'', w_amount = ''5'', w_blockchainWallet = ''0xB'',
      w_timestamp = 1700000000000,
      w_signature = ''0xB/'' @ withdrawal_challenge ''5'' ''paw_X'', w_attempt = 0\<rparr>"

text \<open>
  Pending blocks of the hot wallet: a deposit of a user, a block of fewer than 9 digits
  from a user, and a block sent by the cold wallet.
\<close>

definition user_block :: pending_block where
  "user_block = \<lparr>p_hash = ''H1'', p_amount = ''12000000000'', p_source = ''paw_user'', p_now = 1000\<rparr>"

definition dust_block :: pending_block where
  "dust_block = \<lparr>p_hash = ''H2'', p_amount = ''12345678'', p_source = ''paw_user'', p_now = 2000\<rparr>"

definition cold_block :: pending_block where
  "cold_block =
     \<lparr>p_hash = ''H3'', p_amount = ''1000000000000000000000000000'', p_source = ''paw_ILIKETHIS'',
      p_now = 3000\<rparr>"

text \<open>
  The node as \<^verbatim>\<open>test/Paw.spec.ts\<close> stubs it: \<^verbatim>\<open>getTotalBalance\<close> of the hot wallet gives
  \<open>balance\<close>. And the rows of its dataset, in units of \<open>10\<^sup>-\<^sup>1\<^sup>8\<close>: what the hot wallet held
  before the deposit, the deposit, and what is expected to go to the cold wallet.
\<close>

definition stub_total :: "int \<Rightarrow> env" where
  "stub_total balance = test_env\<lparr>lib := test_ethers\<lparr>BigNumber_from := (\<lambda>s. Some balance)\<rparr>\<rparr>"

definition dataset :: "(int \<times> int \<times> int) list" where
  "dataset =
     [(10 * 10 ^ 18, 10 * 10 ^ 18, 8 * 10 ^ 18),
      (5 * 10 ^ 18, 12 * 10 ^ 18, 56 * 10 ^ 17),
      (0, 11 * 10 ^ 18, 8 * 10 ^ 17),
      (20 * 10 ^ 18, 10 * 10 ^ 18, 8 * 10 ^ 18),
      (10 * 10 ^ 18, 412 * 10 ^ 16, 32 * 10 ^ 17)]"

section \<open>Properties of the store\<close>

subsection \<open>Sorted sets and hashes\<close>

lemma zadd_list_fresh: "m \<notin> fst ` set es \<Longrightarrow> zadd_list sc m es = es @ [(m, sc)]"
  by (induction es) auto

lemma zadd_list_member: "m \<in> fst ` set (zadd_list sc m es)"
  by (induction es) auto

lemma zrank_found_zadd: "zrank_found (zadd r key sc m) key m"
  by (simp add: zrank_found_def zadd_def zadd_list_member)

lemma zsets_hset: "zsets (hset r k flds) = zsets r"
  by (simp add: hset_def)

lemma paw_balance_hset: "paw_balance (hset r k flds) = paw_balance r"
  by (simp add: hset_def)

lemma paw_balance_zadd: "paw_balance (zadd r key sc m) = paw_balance r"
  by (simp add: zadd_def)


subsection \<open>Deposits are stored once\<close>




subsection \<open>The scan cursor\<close>


subsection \<open>The balance of an address never seen\<close>



section \<open>Swaps from wPAW to PAW\<close>

text \<open>
  Claim C7. A swap whose hash is already in the set \<^verbatim>\<open>swaps:wpaw-to-paw\<close> of its
  blockchain wallet is answered with success, its own hash reported, and nothing changes:
  the store (balances, swap sets, audit hashes), the node and the queue are as before. A
  swap whose hash is new, with a PAW wallet and an amount that \<^verbatim>\<open>parseEther\<close> reads,
  credits the balance of its PAW wallet by that amount, appends its hash to the set with
  the time in milliseconds as score, and writes its audit hash. Whenever processing
  changes anything, the hash was new.
\<close>

theorem processSwapToPAW_credits_once:
  "(service_containsUserSwapToPaw (store w) swap \<longrightarrow>
      processSwapToPAW e w swap = (Inr (s_hash swap, s_wpawBalance swap), w))
   \<and> (\<not> service_containsUserSwapToPaw (store w) swap \<and> w_pawWallet swap \<noteq> []
        \<and> parseEther (lib e) (w_amount swap) = Some a \<longrightarrow>
        fst (processSwapToPAW e w swap) = Inr (s_hash swap, s_wpawBalance swap)
        \<and> storage_getUserAvailableBalance (store (snd (processSwapToPAW e w swap))) (w_pawWallet swap)
            = storage_getUserAvailableBalance (store w) (w_pawWallet swap) + a
        \<and> zsets (store (snd (processSwapToPAW e w swap)))
              (''swaps:wpaw-to-paw:'' @ toLowerCase (w_blockchainWallet swap))
            = zsets (store w) (''swaps:wpaw-to-paw:'' @ toLowerCase (w_blockchainWallet swap))
              @ [(s_hash swap, w_timestamp swap * 1000)]
        \<and> service_containsUserSwapToPaw (store (snd (processSwapToPAW e w swap))) swap
        \<and> (\<exists>m. audit (store (snd (processSwapToPAW e w swap))) (s_hash swap) = Some m
               \<and> m ''type'' = Some (Str ''swap-to-paw'') \<and> m ''amount'' = Some (Num a))
        \<and> received (snd (processSwapToPAW e w swap)) = received w
        \<and> sent (snd (processSwapToPAW e w swap)) = sent w
        \<and> queue (snd (processSwapToPAW e w swap)) = queue w)
   \<and> (snd (processSwapToPAW e w swap) \<noteq> w \<longrightarrow>
        \<not> service_containsUserSwapToPaw (store w) swap)"
proof (intro conjI impI)
  assume "service_containsUserSwapToPaw (store w) swap"
  then show "processSwapToPAW e w swap = (Inr (s_hash swap, s_wpawBalance swap), w)"
    by (simp add: processSwapToPAW_def)
next
  assume "snd (processSwapToPAW e w swap) \<noteq> w"
  then show "\<not> service_containsUserSwapToPaw (store w) swap"
    by (auto simp: processSwapToPAW_def)
next
  assume h: "\<not> service_containsUserSwapToPaw (store w) swap \<and> w_pawWallet swap \<noteq> []
        \<and> parseEther (lib e) (w_amount swap) = Some a"
  let ?key = "''swaps:wpaw-to-paw:'' @ toLowerCase (w_blockchainWallet swap)"
  let ?addr = "toLowerCase (w_pawWallet swap)"
  let ?bal = "(case paw_balance (store w) ?addr of Some rawBalance \<Rightarrow> rawBalance | None \<Rightarrow> 0) + a"
  define r' where "r' = hset (zadd ((store w)\<lparr>paw_balance := (paw_balance (store w))(?addr \<mapsto> ?bal)\<rparr>)
      ?key (w_timestamp swap * 1000) (s_hash swap)) (s_hash swap)
         [(''type'', Str ''swap-to-paw''), (''hash'', Str (s_hash swap)),
          (''pawAddress'', Str ?addr), (''amount'', Num a),
          (''timestamp'', Num (w_timestamp swap * 1000))]"
  have fresh: "s_hash swap \<notin> fst ` set (zsets (store w) ?key)"
    using h by (simp add: service_containsUserSwapToPaw_def storage_swapToPawWasAlreadyDone_def
        zrank_found_def)
  have run: "processSwapToPAW e w swap = (Inr (s_hash swap, s_wpawBalance swap), w\<lparr>store := r'\<rparr>)"
    using h
    unfolding processSwapToPAW_def service_storeUserSwapToPaw_def storage_storeUserSwapToPaw_def
      service_containsUserSwapToPaw_def r'_def
    by (simp add: Let_def)
  have z: "zsets r' ?key = zsets (store w) ?key @ [(s_hash swap, w_timestamp swap * 1000)]"
    unfolding r'_def using fresh by (simp add: zsets_hset zadd_def zadd_list_fresh)
  show "fst (processSwapToPAW e w swap) = Inr (s_hash swap, s_wpawBalance swap)"
    by (simp add: run)
  show "storage_getUserAvailableBalance (store (snd (processSwapToPAW e w swap))) (w_pawWallet swap)
            = storage_getUserAvailableBalance (store w) (w_pawWallet swap) + a"
    by (simp add: run r'_def storage_getUserAvailableBalance_def paw_balance_hset paw_balance_zadd
        split: option.splits)
  show "zsets (store (snd (processSwapToPAW e w swap))) ?key
            = zsets (store w) ?key @ [(s_hash swap, w_timestamp swap * 1000)]"
    unfolding run using z by simp
  show "service_containsUserSwapToPaw (store (snd (processSwapToPAW e w swap))) swap"
    unfolding run service_containsUserSwapToPaw_def storage_swapToPawWasAlreadyDone_def zrank_found_def
    using z by simp
  show "\<exists>m. audit (store (snd (processSwapToPAW e w swap))) (s_hash swap) = Some m
               \<and> m ''type'' = Some (Str ''swap-to-paw'') \<and> m ''amount'' = Some (Num a)"
    unfolding run r'_def by (simp add: hset_def map_add_def split: option.splits)
  show "received (snd (processSwapToPAW e w swap)) = received w"
    by (simp add: run)
  show "sent (snd (processSwapToPAW e w swap)) = sent w"
    by (simp add: run)
  show "queue (snd (processSwapToPAW e w swap)) = queue w"
    by (simp add: run)
qed


theorem processSwapToPAW_credits_once_witness:
  "\<not> service_containsUserSwapToPaw (store empty_world)
       \<lparr>w_pawWallet = ''paw_X'', w_amount = ''2.5'', w_blockchainWallet = ''0xA'',
        w_timestamp = 1700000000, s_wpawBalance = ''0'', s_hash = ''0xBURN''\<rparr>
   \<and> parseEther (lib test_env) ''2.5'' = Some (25 * 10 ^ 17)
   \<and> storage_getUserAvailableBalance (store (snd (processSwapToPAW test_env empty_world
       \<lparr>w_pawWallet = ''paw_X'', w_amount = ''2.5'', w_blockchainWallet = ''0xA'',
        w_timestamp = 1700000000, s_wpawBalance = ''0'', s_hash = ''0xBURN''\<rparr>))) ''paw_X''
       = 25 * 10 ^ 17
   \<and> snd (processSwapToPAW test_env empty_world
       \<lparr>w_pawWallet = ''paw_X'', w_amount = ''2.5'', w_blockchainWallet = ''0xA'',
        w_timestamp = 1700000000, s_wpawBalance = ''0'', s_hash = ''0xBURN''\<rparr>) \<noteq> empty_world
   \<and> processSwapToPAW test_env
        (snd (processSwapToPAW test_env empty_world
          \<lparr>w_pawWallet = ''paw_X'', w_amount = ''2.5'', w_blockchainWallet = ''0xA'',
           w_timestamp = 1700000000, s_wpawBalance = ''0'', s_hash = ''0xBURN''\<rparr>))
        \<lparr>w_pawWallet = ''paw_X'', w_amount = ''2.5'', w_blockchainWallet = ''0xA'',
         w_timestamp = 1700000000, s_wpawBalance = ''0'', s_hash = ''0xBURN''\<rparr>
       = (Inr (''0xBURN'', ''0''),
          snd (processSwapToPAW test_env empty_world
            \<lparr>w_pawWallet = ''paw_X'', w_amount = ''2.5'', w_blockchainWallet = ''0xA'',
             w_timestamp = 1700000000, s_wpawBalance = ''0'', s_hash = ''0xBURN''\<rparr>))"
proof -
  let ?swap = "\<lparr>w_pawWallet = ''paw_X'', w_amount = ''2.5'', w_blockchainWallet = ''0xA'',
        w_timestamp = 1700000000, s_wpawBalance = ''0'', s_hash = ''0xBURN''\<rparr>"
  let ?w1 = "snd (processSwapToPAW test_env empty_world ?swap)"
  have fresh: "\<not> service_containsUserSwapToPaw (store empty_world) ?swap"
    by (simp add: service_containsUserSwapToPaw_def storage_swapToPawWasAlreadyDone_def
        zrank_found_def empty_world_def empty_redis_def)
  have amount: "parseEther (lib test_env) ''2.5'' = Some (25 * 10 ^ 17)"
    by (simp add: test_env_def test_ethers_def)
  have zero: "storage_getUserAvailableBalance (store empty_world) ''paw_X'' = 0"
    by (simp add: storage_getUserAvailableBalance_def empty_world_def empty_redis_def)
  have prem: "\<not> service_containsUserSwapToPaw (store empty_world) ?swap \<and> w_pawWallet ?swap \<noteq> []
        \<and> parseEther (lib test_env) (w_amount ?swap) = Some (25 * 10 ^ 17)"
    using fresh amount by simp
  note fresh_case =
    processSwapToPAW_credits_once [where w = empty_world and e = test_env and swap = ?swap and a = "25 * 10 ^ 17",
        THEN conjunct2, THEN conjunct1, rule_format, OF prem]
  have first: "storage_getUserAvailableBalance (store ?w1) ''paw_X'' = 25 * 10 ^ 17"
    using fresh_case [THEN conjunct2, THEN conjunct1] zero by simp
  have seen: "service_containsUserSwapToPaw (store ?w1) ?swap"
    using fresh_case [THEN conjunct2, THEN conjunct2, THEN conjunct2, THEN conjunct1] .
  have changed: "?w1 \<noteq> empty_world"
  proof
    assume "?w1 = empty_world"
    with first zero show False by simp
  qed
  have again: "processSwapToPAW test_env ?w1 ?swap = (Inr (''0xBURN'', ''0''), ?w1)"
    using processSwapToPAW_credits_once [where w = ?w1 and e = test_env and swap = ?swap and a = 0,
        THEN conjunct1, rule_format, OF seen]
    by simp
  show ?thesis
    using fresh amount first changed again by simp
qed

section \<open>Claims\<close>








section \<open>Withdrawals\<close>

lemma addPawUserPendingWithdrawal_eq:
  "addPawUserPendingWithdrawal q wd =
     (wd\<lparr>w_attempt := w_attempt wd + 1\<rparr>, q @ [pending_withdrawal_job wd])"
  by (simp add: addPawUserPendingWithdrawal_def pending_withdrawal_job_def Let_def
      PENDING_WITHDRAWAL_RETRY_DELAY_def)

lemma eventuallySendPaw_pending:
  assumes "parseEther (lib e) (w_amount wd) = Some amount"
    and "getBalance e (PawUsersDepositsHotWallet cfg) = Inr hotWalletBalance"
    and "hotWalletBalance < amount"
  shows "eventuallySendPaw cfg e w wd =
     (Inr (True, None), wd\<lparr>w_attempt := w_attempt wd + 1\<rparr>,
      w\<lparr>queue := queue w @ [pending_withdrawal_job wd]\<rparr>)"
  using assms by (simp add: eventuallySendPaw_def addPawUserPendingWithdrawal_eq)

lemma test_hot_balance:
  "getBalance test_env (PawUsersDepositsHotWallet test_config) = Inr (100 * 10 ^ 18)"
  by (simp add: getBalance_def test_env_def test_ethers_def test_config_def)

lemma test_signature:
  "checkSignature (lib test_env) ''0xA'' (''0xA/'' @ withdrawal_challenge amount ''paw_X'')
     (withdrawal_challenge amount ''paw_X'') = Inr True"
  by (simp add: checkSignature_def test_env_def test_ethers_def)

lemma claimed_world_facts:
  "storage_isClaimed (store claimed_world) ''paw_X''"
  "storage_hasClaim (store claimed_world) ''paw_X'' ''0xA''"
  "storage_getUserAvailableBalance (store claimed_world) ''paw_X'' = 200 * 10 ^ 18"
  "\<not> storage_containsUserWithdrawalRequest (store claimed_world) ''paw_X'' ts"
  by (simp_all add: storage_isClaimed_def storage_hasClaim_def storage_getUserAvailableBalance_def
      storage_containsUserWithdrawalRequest_def zcount_def
      redis_keys_def glob_match_def claimed_world_def empty_world_def empty_redis_def
      toLowerCase_def lower_char_def)

lemma test_withdrawal_fields:
  "w_pawWallet (test_withdrawal n) = ''paw_X''"
  "w_amount (test_withdrawal n) = ''150''"
  "w_blockchainWallet (test_withdrawal n) = ''0xA''"
  "w_timestamp (test_withdrawal n) = 1700000000000"
  "w_signature (test_withdrawal n) = ''0xA/'' @ withdrawal_challenge ''150'' ''paw_X''"
  "w_attempt (test_withdrawal n) = n"
  "(test_withdrawal n)\<lparr>w_attempt := m\<rparr> = test_withdrawal m"
  by (simp_all add: test_withdrawal_def)

lemma test_withdrawal_checks:
  "\<not> service_containsUserWithdrawalRequest (store claimed_world) (test_withdrawal n)"
  "w_signature (test_withdrawal n) = [] \<or>
     checkSignature (lib test_env) (w_blockchainWallet (test_withdrawal n)) (w_signature (test_withdrawal n))
       (withdrawal_challenge (w_amount (test_withdrawal n)) (w_pawWallet (test_withdrawal n))) = Inr True"
  "parseEther (lib test_env) (w_amount (test_withdrawal n)) = Some (150 * 10 ^ 18)"
  "150 * 10 ^ 18 \<le> storage_getUserAvailableBalance (store claimed_world) (w_pawWallet (test_withdrawal n))"
     apply (simp add: service_containsUserWithdrawalRequest_def claimed_world_facts test_withdrawal_fields)
    apply (simp only: test_withdrawal_fields test_signature simp_thms)
   apply (simp add: test_withdrawal_fields test_env_def test_ethers_def)
  apply (simp add: test_withdrawal_fields claimed_world_facts)
  done

text \<open>
  Claim C5, as the code has it. Take a withdrawal job that was not processed before,
  whose signature is empty or right, whose amount \<^verbatim>\<open>parseEther\<close> reads, is not negative
  and is covered by the balance of the user, while the balance of the hot wallet is less
  than the amount. Then nothing is sent and no withdrawal is stored: store and node are as
  before. One job is added to the queue: the withdrawal with its attempt count increased
  by one, delayed by that count times 60 000 ms, removed when it fails. The worker
  completes with an empty transaction when the job came in with the attempt count 0 (the
  count it then reads is 1), and throws
  \<^verbatim>\<open>Old pending withdrawal request replaced by a new one\<close> for every other count.
\<close>

theorem withdrawal_deferred_when_hot_wallet_short:
  assumes fresh: "\<not> service_containsUserWithdrawalRequest (store w) wd"
    and signed: "w_signature wd = [] \<or>
       checkSignature (lib e) (w_blockchainWallet wd) (w_signature wd)
         (withdrawal_challenge (w_amount wd) (w_pawWallet wd)) = Inr True"
    and amount: "parseEther (lib e) (w_amount wd) = Some amount"
    and positive: "0 \<le> amount"
    and covered: "amount \<le> storage_getUserAvailableBalance (store w) (w_pawWallet wd)"
    and hot: "getBalance e (PawUsersDepositsHotWallet cfg) = Inr hotWalletBalance"
    and short: "hotWalletBalance < amount"
  shows "processPawWithdrawal cfg e w wd =
     (if w_attempt wd = 0
      then Inr \<lparr>r_pawWallet = w_pawWallet wd, r_withdrawal = w_amount wd,
                r_balance = storage_getUserAvailableBalance (store w) (w_pawWallet wd),
                r_transaction = []\<rparr>
      else Inl ReplacedByNewRequest,
      w\<lparr>queue := queue w @ [pending_withdrawal_job wd]\<rparr>)"
proof -
  have sig: "(case Some (w_signature wd) of
                 None \<Rightarrow> Inr True
               | Some sg \<Rightarrow>
                   if sg = [] then Inr True
                   else checkSignature (lib e) (w_blockchainWallet wd) sg
                          (withdrawal_challenge (w_amount wd) (w_pawWallet wd))) = Inr True"
    using signed by auto
  have run: "processWithdrawPAW cfg e w wd (Some (w_signature wd)) =
      (Inr [], wd\<lparr>w_attempt := w_attempt wd + 1\<rparr>,
       w\<lparr>queue := queue w @ [pending_withdrawal_job wd]\<rparr>)"
    unfolding processWithdrawPAW_def Let_def
    using fresh amount positive covered
    by (simp only: sig eventuallySendPaw_pending [OF amount hot short])
       (simp add: service_isClaimed_def service_hasClaim_def service_getUserAvailableBalance_def)
  show ?thesis
    unfolding processPawWithdrawal_def withdrawalProcessor_def run
    by (simp add: service_getUserAvailableBalance_def)
qed


text \<open>
  The second attempt of the withdrawal of 150 by a user with a balance of 200, the hot
  wallet holding 100: the worker throws, and the job added is the third attempt, delayed
  by 120 000 ms and removed when it fails.
\<close>

theorem withdrawal_deferred_when_hot_wallet_short_witness:
  "processPawWithdrawal test_config test_env claimed_world (test_withdrawal 1)
     = (Inl ReplacedByNewRequest,
        claimed_world\<lparr>queue := queue claimed_world @ [pending_withdrawal_job (test_withdrawal 1)]\<rparr>)
   \<and> job_data (pending_withdrawal_job (test_withdrawal 1)) = WithdrawalData (test_withdrawal 2)
   \<and> job_delay (pending_withdrawal_job (test_withdrawal 1)) = 120000
   \<and> removeOnFail (pending_withdrawal_job (test_withdrawal 1))"
proof -
  have "processPawWithdrawal test_config test_env claimed_world (test_withdrawal 1) =
     (if w_attempt (test_withdrawal 1) = 0
      then Inr \<lparr>r_pawWallet = w_pawWallet (test_withdrawal 1), r_withdrawal = w_amount (test_withdrawal 1),
                r_balance = storage_getUserAvailableBalance (store claimed_world) (w_pawWallet (test_withdrawal 1)),
                r_transaction = []\<rparr>
      else Inl ReplacedByNewRequest,
      claimed_world\<lparr>queue := queue claimed_world @ [pending_withdrawal_job (test_withdrawal 1)]\<rparr>)"
    by (rule withdrawal_deferred_when_hot_wallet_short [OF test_withdrawal_checks(1) test_withdrawal_checks(2) test_withdrawal_checks(3) _
          test_withdrawal_checks(4) test_hot_balance]) simp_all
  then show ?thesis
    by (simp add: pending_withdrawal_job_def test_withdrawal_fields)
qed


text \<open>
  Claim C5 as it is worded has the worker of the original job throw. The first attempt of
  the same withdrawal passes every check (\<^verbatim>\<open>paw_X\<close> is claimed by \<^verbatim>\<open>0xA\<close>, the balance is
  200, the hot wallet holds 100) and its worker completes with an empty transaction.
\<close>

theorem first_deferral_completes_counterexample:
  "storage_isClaimed (store claimed_world) ''paw_X''
   \<and> storage_hasClaim (store claimed_world) ''paw_X'' ''0xA''
   \<and> storage_getUserAvailableBalance (store claimed_world) ''paw_X'' = 200 * 10 ^ 18
   \<and> parseEther (lib test_env) ''150'' = Some (150 * 10 ^ 18)
   \<and> getBalance test_env (PawUsersDepositsHotWallet test_config) = Inr (100 * 10 ^ 18)
   \<and> fst (processPawWithdrawal test_config test_env claimed_world (test_withdrawal 0))
       = Inr \<lparr>r_pawWallet = ''paw_X'', r_withdrawal = ''150'', r_balance = 200 * 10 ^ 18,
               r_transaction = []\<rparr>"
proof -
  have amount: "parseEther (lib test_env) ''150'' = Some (150 * 10 ^ 18)"
    by (simp add: test_env_def test_ethers_def)
  have send: "eventuallySendPaw test_config test_env claimed_world (test_withdrawal 0) =
     (Inr (True, None), test_withdrawal 1,
      claimed_world\<lparr>queue := queue claimed_world @ [pending_withdrawal_job (test_withdrawal 0)]\<rparr>)"
    using eventuallySendPaw_pending [where wd = "test_withdrawal 0" and w = claimed_world,
        OF test_withdrawal_checks(3) test_hot_balance]
    by (simp add: test_withdrawal_fields)
  have run: "processWithdrawPAW test_config test_env claimed_world (test_withdrawal 0)
       (Some (w_signature (test_withdrawal 0))) =
     (Inr [], test_withdrawal 1,
      claimed_world\<lparr>queue := queue claimed_world @ [pending_withdrawal_job (test_withdrawal 0)]\<rparr>)"
    unfolding processWithdrawPAW_def Let_def send
    using test_withdrawal_checks [of 0]
    by (simp add: test_withdrawal_fields test_signature claimed_world_facts
        service_isClaimed_def service_hasClaim_def service_getUserAvailableBalance_def)
  have "fst (processPawWithdrawal test_config test_env claimed_world (test_withdrawal 0))
       = Inr \<lparr>r_pawWallet = ''paw_X'', r_withdrawal = ''150'', r_balance = 200 * 10 ^ 18,
               r_transaction = []\<rparr>"
    unfolding processPawWithdrawal_def withdrawalProcessor_def run
    by (simp add: service_getUserAvailableBalance_def claimed_world_facts test_withdrawal_fields)
  then show ?thesis
    using amount test_hot_balance claimed_world_facts by simp
qed

lemma eventuallySendPaw_sends:
  assumes "parseEther (lib e) (w_amount wd) = Some amount"
    and "getBalance e (PawUsersDepositsHotWallet cfg) = Inr hotWalletBalance"
    and "\<not> hotWalletBalance < amount"
  shows "eventuallySendPaw cfg e w wd =
     (Inr (False, Some (sendPawWithdrawalFromSeed e (w_pawWallet wd) amount)), wd,
      w\<lparr>sent := sent w @ [(w_pawWallet wd, amount)]\<rparr>)"
  using assms by (simp add: eventuallySendPaw_def sendPaw_def)

lemma eventuallySendPaw_errors:
  "fst (eventuallySendPaw cfg e w wd) = Inl err \<Longrightarrow> err = InvalidArgument"
  by (auto simp: eventuallySendPaw_def getBalance_def addPawUserPendingWithdrawal_eq sendPaw_def
      Let_def split: option.splits sum.splits if_splits)

lemma processWithdrawPAW_never_checks_claim:
  "fst (processWithdrawPAW cfg e w wd sg) \<noteq> Inl UnclaimedWallet
   \<and> fst (processWithdrawPAW cfg e w wd sg) \<noteq> Inl AnotherBlockchainWallet"
proof -
  have sig: "checkSignature l b s m = Inl err \<Longrightarrow> err = InvalidArgument" for l b s m err
    by (auto simp: checkSignature_def split: option.splits)
  obtain res wd' w' where ev: "eventuallySendPaw cfg e w wd = (res, wd', w')"
    by (cases "eventuallySendPaw cfg e w wd") auto
  have res: "res = Inl err \<Longrightarrow> err = InvalidArgument" for err
    using eventuallySendPaw_errors [of cfg e w wd err] ev by simp
  show ?thesis
    unfolding processWithdrawPAW_def Let_def ev
    by (auto simp: service_isClaimed_def service_hasClaim_def
        split: option.splits sum.splits if_splits prod.splits dest: sig res)
qed

lemma foreign_withdrawal_fields:
  "w_pawWallet foreign_withdrawal = ''paw_X''"
  "w_amount foreign_withdrawal = ''5''"
  "w_blockchainWallet foreign_withdrawal = ''0xB''"
  "w_timestamp foreign_withdrawal = 1700000000000"
  "w_signature foreign_withdrawal = ''0xB/'' @ withdrawal_challenge ''5'' ''paw_X''"
  by (simp_all add: foreign_withdrawal_def)

lemma foreign_signature:
  "checkSignature (lib test_env) ''0xB'' (''0xB/'' @ withdrawal_challenge amount ''paw_X'')
     (withdrawal_challenge amount ''paw_X'') = Inr True"
  by (simp add: checkSignature_def test_env_def test_ethers_def)

lemma unclaimed_world_facts:
  "\<not> storage_isClaimed (store unclaimed_world) ''paw_X''"
  "\<not> storage_hasClaim (store unclaimed_world) ''paw_X'' ''0xB''"
  "storage_getUserAvailableBalance (store unclaimed_world) ''paw_X'' = 5 * 10 ^ 18"
  "\<not> storage_containsUserWithdrawalRequest (store unclaimed_world) ''paw_X'' ts"
  by (simp_all add: storage_isClaimed_def storage_hasClaim_def storage_getUserAvailableBalance_def
      storage_containsUserWithdrawalRequest_def zcount_def
      redis_keys_def glob_match_def unclaimed_world_def empty_world_def empty_redis_def
      toLowerCase_def lower_char_def)

text \<open>
  Claim C1 says that a withdrawal for a PAW wallet with no confirmed claim fails, with
  nothing sent and nothing stored. In \<^verbatim>\<open>processWithdrawPAW\<close> the promises of \<^verbatim>\<open>isClaimed\<close>
  and \<^verbatim>\<open>hasClaim\<close> are negated without \<^verbatim>\<open>await\<close>, so neither check can fail
  (\<open>processWithdrawPAW_never_checks_claim\<close>). Here \<^verbatim>\<open>paw_X\<close> has a balance of 5 and no claim
  at all, and \<^verbatim>\<open>0xB\<close> asks for a withdrawal of 5: the node is told to send 5 to \<^verbatim>\<open>paw_X\<close>,
  the withdrawal is stored and the balance falls to 0.
\<close>

theorem withdrawal_from_unclaimed_wallet_is_paid:
  "\<not> storage_isClaimed (store unclaimed_world) ''paw_X''
   \<and> fst (processWithdrawPAW test_config test_env unclaimed_world foreign_withdrawal
          (Some (w_signature foreign_withdrawal))) = Inr ''0xTHISROCKS''
   \<and> sent (snd (snd (processWithdrawPAW test_config test_env unclaimed_world foreign_withdrawal
          (Some (w_signature foreign_withdrawal))))) = [(''paw_X'', 5 * 10 ^ 18)]
   \<and> zsets (store (snd (snd (processWithdrawPAW test_config test_env unclaimed_world foreign_withdrawal
          (Some (w_signature foreign_withdrawal)))))) ''withdrawals:paw_x''
       = [(''0xTHISROCKS'', 1700000000000)]
   \<and> storage_getUserAvailableBalance
        (store (snd (snd (processWithdrawPAW test_config test_env unclaimed_world foreign_withdrawal
          (Some (w_signature foreign_withdrawal)))))) ''paw_X'' = 0"
proof -
  have amount: "parseEther (lib test_env) (w_amount foreign_withdrawal) = Some (5 * 10 ^ 18)"
    by (simp add: foreign_withdrawal_fields test_env_def test_ethers_def)
  have send: "eventuallySendPaw test_config test_env unclaimed_world foreign_withdrawal =
     (Inr (False, Some ''0xTHISROCKS''), foreign_withdrawal,
      unclaimed_world\<lparr>sent := sent unclaimed_world @ [(''paw_X'', 5 * 10 ^ 18)]\<rparr>)"
    using eventuallySendPaw_sends [where wd = foreign_withdrawal and w = unclaimed_world,
        OF amount test_hot_balance]
    by (simp add: foreign_withdrawal_fields test_env_def)
  have run: "processWithdrawPAW test_config test_env unclaimed_world foreign_withdrawal
       (Some (w_signature foreign_withdrawal)) =
     (Inr ''0xTHISROCKS'', foreign_withdrawal,
      unclaimed_world\<lparr>sent := sent unclaimed_world @ [(''paw_X'', 5 * 10 ^ 18)],
        store := service_storeUserWithdrawal (store unclaimed_world) ''paw_X'' (5 * 10 ^ 18)
                   1700000000000 ''0xTHISROCKS''\<rparr>)"
    unfolding processWithdrawPAW_def Let_def send
    using amount foreign_signature [of "''5''"]
    by (simp add: foreign_withdrawal_fields unclaimed_world_facts
        service_containsUserWithdrawalRequest_def service_isClaimed_def service_hasClaim_def
        service_getUserAvailableBalance_def)
  have stored: "service_storeUserWithdrawal (store unclaimed_world) ''paw_X'' (5 * 10 ^ 18)
                   1700000000000 ''0xTHISROCKS''
      = storage_storeUserWithdrawal (store unclaimed_world) ''paw_X'' (5 * 10 ^ 18)
                   1700000000000 ''0xTHISROCKS''"
    by (simp add: service_storeUserWithdrawal_def unclaimed_world_facts)
  have after: "sent (snd (snd (processWithdrawPAW test_config test_env unclaimed_world foreign_withdrawal
          (Some (w_signature foreign_withdrawal))))) = [(''paw_X'', 5 * 10 ^ 18)]
   \<and> zsets (store (snd (snd (processWithdrawPAW test_config test_env unclaimed_world foreign_withdrawal
          (Some (w_signature foreign_withdrawal)))))) ''withdrawals:paw_x''
       = [(''0xTHISROCKS'', 1700000000000)]
   \<and> storage_getUserAvailableBalance
        (store (snd (snd (processWithdrawPAW test_config test_env unclaimed_world foreign_withdrawal
          (Some (w_signature foreign_withdrawal)))))) ''paw_X'' = 0"
    unfolding run stored
    by (simp add: storage_storeUserWithdrawal_def
        storage_getUserAvailableBalance_def zadd_def hset_def Let_def
        unclaimed_world_def empty_world_def empty_redis_def toLowerCase_def lower_char_def)
  have result: "fst (processWithdrawPAW test_config test_env unclaimed_world foreign_withdrawal
          (Some (w_signature foreign_withdrawal))) = Inr ''0xTHISROCKS''"
    by (simp add: run)
  from unclaimed_world_facts(1) result after show ?thesis
    by (intro conjI) simp_all
qed


section \<open>The sweep of pending blocks\<close>

lemma body_returns_iff:
  "fst (pendingTransactionBody cfg e b v) = only_received cfg e b"
  by (auto simp: pendingTransactionBody_def only_received_def Let_def split: option.splits)

lemma loop_passes:
  "\<forall>p \<in> set pre. \<not> only_received cfg e p \<Longrightarrow>
     pendingTransactionsLoop cfg e (pre @ rest) w
       = pendingTransactionsLoop cfg e rest (fold (\<lambda>p v. snd (pendingTransactionBody cfg e p v)) pre w)"
proof (induction pre arbitrary: w)
  case Nil
  show ?case by simp
next
  case (Cons p pre)
  obtain flag w' where body: "pendingTransactionBody cfg e p w = (flag, w')"
    by (cases "pendingTransactionBody cfg e p w") auto
  have "\<not> only_received cfg e p"
    using Cons.prems by simp
  then have "\<not> flag"
    using body_returns_iff [of cfg e p w] body by simp
  moreover have "\<forall>q \<in> set pre. \<not> only_received cfg e q"
    using Cons.prems by simp
  ultimately show ?case
    using Cons.IH [of w'] body by simp
qed

lemma block_classes:
  "\<not> only_received test_config test_env user_block"
  "only_received test_config test_env dust_block"
  "only_received test_config test_env cold_block"
  by (simp_all add: only_received_def user_block_def dust_block_def cold_block_def
      test_config_def test_env_def test_ethers_def)

lemma user_block_amount:
  "BigNumber_from (lib test_env) (take (length (p_amount user_block) - 9) (p_amount user_block)) = Some 12"
  by (simp add: user_block_def test_env_def test_ethers_def)

text \<open>
  Claim C4, as the code has it. Take the pending blocks of a sweep in their order, none
  of them but possibly the last being one that is only received. Then every block is
  handled by the body of the loop, one after the other. The body only receives a block
  whose raw amount has fewer than 9 digits, and a block with a readable amount that the
  hot or the cold wallet sent; it skips a block whose amount \<^verbatim>\<open>BigNumber.from\<close> refuses;
  and it enqueues every other block as a deposit job of its sender, with the raw amount
  less its last 9 digits. For a block whose raw amount has 9 digits or more, that is what
  the websocket path does with the confirmation of the same block.
\<close>

theorem sweep_classifies_each_block:
  assumes "\<forall>p \<in> set pre. \<not> only_received cfg e p"
  shows "processPendingTransactions cfg e w (Some (pre @ [b]))
       = snd (pendingTransactionBody cfg e b
           (fold (\<lambda>p v. snd (pendingTransactionBody cfg e p v)) pre w))
   \<and> (\<forall>t v. snd (pendingTransactionBody cfg e t v) =
         (if only_received cfg e t then receiveTransaction v (p_hash t)
          else case BigNumber_from (lib e) (take (length (p_amount t) - 9) (p_amount t)) of
                 None \<Rightarrow> v
               | Some pawAmount \<Rightarrow> queueUserDeposit v (p_source t) pawAmount (p_now t) (p_hash t)))
   \<and> (\<forall>t v. 9 \<le> length (p_amount t) \<longrightarrow>
         snd (wsMessageReceived cfg e v (confirmation_of cfg t)) = snd (pendingTransactionBody cfg e t v))"
proof (intro conjI allI impI)
  have "pendingTransactionsLoop cfg e (pre @ [b]) w
      = pendingTransactionsLoop cfg e [b] (fold (\<lambda>p v. snd (pendingTransactionBody cfg e p v)) pre w)"
    using assms by (rule loop_passes)
  then show "processPendingTransactions cfg e w (Some (pre @ [b]))
       = snd (pendingTransactionBody cfg e b
           (fold (\<lambda>p v. snd (pendingTransactionBody cfg e p v)) pre w))"
    by (simp add: processPendingTransactions_def split: prod.splits bool.splits)
next
  fix t v
  show "snd (pendingTransactionBody cfg e t v) =
         (if only_received cfg e t then receiveTransaction v (p_hash t)
          else case BigNumber_from (lib e) (take (length (p_amount t) - 9) (p_amount t)) of
                 None \<Rightarrow> v
               | Some pawAmount \<Rightarrow> queueUserDeposit v (p_source t) pawAmount (p_now t) (p_hash t))"
    by (auto simp: pendingTransactionBody_def only_received_def Let_def split: option.splits)
next
  fix t :: pending_block and v :: world
  assume "9 \<le> length (p_amount t)"
  then show "snd (wsMessageReceived cfg e v (confirmation_of cfg t)) = snd (pendingTransactionBody cfg e t v)"
    by (auto simp: wsMessageReceived_def pendingTransactionBody_def confirmation_of_def Let_def
        split: option.splits)
qed

text \<open>
  A sweep over a deposit of a user followed by a block from the cold wallet: the deposit
  is enqueued, as the websocket path would have done, and the cold wallet's block is
  received.
\<close>

theorem sweep_classifies_each_block_witness:
  "\<not> only_received test_config test_env user_block
   \<and> processPendingTransactions test_config test_env empty_world (Some ([user_block] @ [cold_block]))
       = receiveTransaction (queueUserDeposit empty_world ''paw_user'' 12 1000 ''H1'') ''H3''
   \<and> 9 \<le> length (p_amount user_block)
   \<and> snd (wsMessageReceived test_config test_env empty_world (confirmation_of test_config user_block))
       = queueUserDeposit empty_world ''paw_user'' 12 1000 ''H1''"
proof -
  have pre: "\<forall>p \<in> set [user_block]. \<not> only_received test_config test_env p"
    by (simp add: block_classes)
  note sweep = sweep_classifies_each_block [where cfg = test_config and e = test_env
      and w = empty_world and b = cold_block, OF pre]
  have body: "snd (pendingTransactionBody test_config test_env t v) =
         (if only_received test_config test_env t then receiveTransaction v (p_hash t)
          else case BigNumber_from (lib test_env) (take (length (p_amount t) - 9) (p_amount t)) of
                 None \<Rightarrow> v
               | Some pawAmount \<Rightarrow> queueUserDeposit v (p_source t) pawAmount (p_now t) (p_hash t))" for t v
    using sweep [THEN conjunct2, THEN conjunct1] by blast
  have swept: "processPendingTransactions test_config test_env empty_world (Some ([user_block] @ [cold_block]))
     = receiveTransaction (queueUserDeposit empty_world ''paw_user'' 12 1000 ''H1'') ''H3''"
    unfolding sweep [THEN conjunct1]
    by (simp add: body block_classes user_block_amount)
       (simp add: user_block_def cold_block_def)
  have long: "9 \<le> length (p_amount user_block)"
    by (simp add: user_block_def)
  have "snd (wsMessageReceived test_config test_env empty_world (confirmation_of test_config user_block))
       = snd (pendingTransactionBody test_config test_env user_block empty_world)"
    using sweep [THEN conjunct2, THEN conjunct2] long by blast
  then have stream: "snd (wsMessageReceived test_config test_env empty_world (confirmation_of test_config user_block))
       = queueUserDeposit empty_world ''paw_user'' 12 1000 ''H1''"
    by (simp add: body block_classes user_block_amount) (simp add: user_block_def)
  from block_classes(1) swept long stream show ?thesis
    by (intro conjI)
qed

text \<open>
  Claim C4 as it is worded has every block not sent by the hot or the cold wallet
  enqueued as a deposit job. A block of 8 digits sent by a user is received, and no job
  is enqueued.
\<close>

theorem sweep_small_block_counterexample:
  "p_source dust_block \<noteq> PawUsersDepositsHotWallet test_config
   \<and> p_source dust_block \<noteq> PawUsersDepositsColdWallet test_config
   \<and> received (processPendingTransactions test_config test_env empty_world (Some [dust_block]))
       = [''H2'']
   \<and> queue (processPendingTransactions test_config test_env empty_world (Some [dust_block])) = []"
  by (simp add: processPendingTransactions_def pendingTransactionBody_def receiveTransaction_def
      dust_block_def test_config_def empty_world_def)

text \<open>
  What the amended claim leaves out: after a block that is only received the sweep
  returns, and the blocks behind it wait for a later sweep.
\<close>

lemma sweep_stops_at_first_return:
  "processPendingTransactions test_config test_env empty_world (Some [cold_block, user_block])
     = receiveTransaction empty_world ''H3''"
  by (simp add: processPendingTransactions_def pendingTransactionBody_def
      cold_block_def test_config_def test_env_def test_ethers_def)

section \<open>Deposits\<close>

subsection \<open>Whole numbers as JavaScript numbers\<close>

text \<open>
  An integer below \<open>2\<^sup>5\<^sup>3\<close> in absolute value is a JavaScript number, and the operations
  on numbers used by the hot and cold wallets keep it as it is.
\<close>

lemma bit_length_nonneg: "0 \<le> bit_length a"
proof (induction a rule: bit_length.induct)
  case (1 a)
  show ?case
  proof (cases "a \<le> 0")
    case True
    then show ?thesis by (subst bit_length.simps) simp
  next
    case False
    with "1.IH" have "0 \<le> bit_length (a div 2)" by simp
    with False show ?thesis by (subst bit_length.simps) simp
  qed
qed

lemma bit_length_pos: "0 < a \<Longrightarrow> 0 < bit_length a"
  using bit_length_nonneg [of "a div 2"] by (subst bit_length.simps) simp

lemma bit_length_bounds:
  "0 < a \<Longrightarrow> 2 ^ nat (bit_length a - 1) \<le> a \<and> a < 2 ^ nat (bit_length a)"
proof (induction a rule: bit_length.induct)
  case (1 a)
  show ?case
  proof (cases "a = 1")
    case True
    have "bit_length 1 = 1"
      by (subst bit_length.simps, subst bit_length.simps) simp
    with True show ?thesis by simp
  next
    case False
    with "1.prems" have half: "0 < a div 2" by simp
    have IH: "2 ^ nat (bit_length (a div 2) - 1) \<le> a div 2 \<and> a div 2 < 2 ^ nat (bit_length (a div 2))"
      using "1.IH" "1.prems" half by simp
    have bl: "bit_length a = 1 + bit_length (a div 2)"
      using "1.prems" by (subst bit_length.simps) simp
    have pos: "0 < bit_length (a div 2)"
      using half by (rule bit_length_pos)
    have e1: "nat (bit_length a - 1) = Suc (nat (bit_length (a div 2) - 1))"
      using bl pos by (simp add: Suc_nat_eq_nat_zadd1)
    have e2: "nat (bit_length a) = Suc (nat (bit_length (a div 2)))"
      using bl pos by (simp add: Suc_nat_eq_nat_zadd1 add.commute)
    have "2 * 2 ^ nat (bit_length (a div 2) - 1) \<le> 2 * (a div 2)"
      using IH by simp
    also have "\<dots> \<le> a" by simp
    finally have lower: "2 ^ nat (bit_length a - 1) \<le> a"
      by (simp add: e1)
    have "a div 2 + 1 \<le> 2 ^ nat (bit_length (a div 2))"
      using IH by simp
    then have "2 * (a div 2) + 2 \<le> 2 * 2 ^ nat (bit_length (a div 2))"
      by simp
    moreover have "a < 2 * (a div 2) + 2"
      by presburger
    ultimately have upper: "a < 2 ^ nat (bit_length a)"
      by (simp add: e2)
    from lower upper show ?thesis ..
  qed
qed


lemma bit_length_one: "bit_length 1 = 1"
  by (subst bit_length.simps, subst bit_length.simps) simp

lemma round_half_even_of_int: "round_half_even (of_int j) = j"
  by (simp add: round_half_even_def)

lemma floor_log2_of_int:
  assumes "0 < m"
  shows "floor_log2 (of_int m) = bit_length m - 1"
proof -
  have nn: "0 \<le> bit_length m - 1"
    using bit_length_pos [OF assms] by simp
  have "(2::int) ^ nat (bit_length m - 1) \<le> m"
    using bit_length_bounds [OF assms] by simp
  then have "(of_int ((2::int) ^ nat (bit_length m - 1)) :: rat) \<le> of_int m"
    by (simp only: of_int_le_iff)
  then have "pow2 (bit_length m - 1) \<le> of_int m"
    using nn by (simp add: pow2_def)
  then show ?thesis
    by (simp add: floor_log2_def quotient_of_int bit_length_one)
qed

lemma Number_value_of_pos_int:
  assumes "0 < m" and "m < 2 ^ 53"
  shows "Number_value (of_int m) = of_int m"
proof -
  define e where "e = bit_length m - 1"
  have e0: "0 \<le> e"
    using bit_length_pos [OF assms(1)] by (simp add: e_def)
  have "(2::int) ^ nat e \<le> m"
    using bit_length_bounds [OF assms(1)] by (simp add: e_def)
  with assms(2) have lt: "(2::int) ^ nat e < 2 ^ 53"
    by simp
  have "nat e < 53"
    by (rule power_less_imp_less_exp [OF _ lt]) simp
  then have e52: "e \<le> 52"
    by simp
  define k where "k = nat (52 - e)"
  have u: "pow2 (e - 52) = 1 / 2 ^ k"
  proof (cases "e = 52")
    case True
    then show ?thesis by (simp add: pow2_def k_def)
  next
    case False
    with e52 have "e - 52 < 0" by simp
    then show ?thesis by (simp add: pow2_def k_def)
  qed
  have q: "(of_int m :: rat) / (1 / 2 ^ k) = of_int (m * 2 ^ k)"
    by simp
  have pos: "(of_int m :: rat) \<noteq> 0" "\<bar>of_int m :: rat\<bar> = of_int m" "sgn (of_int m :: rat) = 1"
    using assms(1) by simp_all
  have "Number_value (of_int m) = of_int (round_half_even (of_int m / (1 / 2 ^ k))) * (1 / 2 ^ k)"
    unfolding Number_value_def
    using pos floor_log2_of_int [OF assms(1)] u
    by (simp add: Let_def e_def del: of_int_eq_0_iff)
  also have "\<dots> = of_int (m * 2 ^ k) * (1 / 2 ^ k)"
    by (simp only: q round_half_even_of_int)
  also have "\<dots> = of_int m"
    by simp
  finally show ?thesis .
qed

lemma Number_value_of_int:
  assumes "\<bar>n\<bar> < 2 ^ 53"
  shows "Number_value (of_int n) = of_int n"
proof -
  consider "n = 0" | "0 < n" | "n < 0" by linarith
  then show ?thesis
  proof cases
    case 1
    then show ?thesis by (simp add: Number_value_def)
  next
    case 2
    with assms show ?thesis by (simp add: Number_value_of_pos_int)
  next
    case 3
    then have p: "0 < - n" "- n < 2 ^ 53"
      using assms by simp_all
    have "Number_value (of_int n) = - Number_value (of_int (- n))"
      using 3 by (simp add: Number_value_def Let_def)
    then show ?thesis
      using Number_value_of_pos_int [OF p] by simp
  qed
qed

lemma Math_round_of_int: "Math_round (of_int n) = of_int n"
proof -
  have "\<lfloor>(of_int n :: rat) + 1 / 2\<rfloor> = n"
    by (simp add: floor_unique)
  then show ?thesis by (simp add: Math_round_def)
qed


lemma parseInt_formatUnits_whole:
  assumes "0 \<le> a" and "a div 10 ^ 18 < 2 ^ 53"
  shows "parseInt_formatUnits a = of_int (a div 10 ^ 18)"
proof -
  have q: "0 \<le> a div 10 ^ 18"
    using assms(1) by (simp add: pos_imp_zdiv_nonneg_iff)
  have "sgn a * (\<bar>a\<bar> div 10 ^ 18) = a div 10 ^ 18"
  proof (cases "a = 0")
    case True
    then show ?thesis by simp
  next
    case False
    with assms(1) have "0 < a" by simp
    then show ?thesis by simp
  qed
  moreover have "\<bar>a div 10 ^ 18\<bar> < 2 ^ 53"
    using q assms(2) by simp
  ultimately show ?thesis
    by (simp only: parseInt_formatUnits_def Number_value_of_int)
qed

lemma BigNumber_from_number_of_int:
  assumes "\<bar>n\<bar> < 2 ^ 53 - 1"
  shows "BigNumber_from_number (Number_value (of_int n)) = Some n"
proof -
  have "\<bar>n\<bar> < 2 ^ 53"
    using assms by simp
  then have nv: "Number_value (of_int n) = of_int n"
    by (rule Number_value_of_int)
  have "\<not> ((of_int n :: rat) \<ge> 2 ^ 53 - 1 \<or> (of_int n :: rat) \<le> - (2 ^ 53 - 1))"
  proof -
    have "n < 2 ^ 53 - 1" "- (2 ^ 53 - 1) < n"
      using assms by simp_all
    then have "(of_int n :: rat) < of_int (2 ^ 53 - 1)" "(of_int (- (2 ^ 53 - 1)) :: rat) < of_int n"
      by (simp_all only: of_int_less_iff)
    then show ?thesis by simp
  qed
  then show ?thesis
    unfolding nv BigNumber_from_number_def by simp
qed

lemma parseEther_toString_of_int:
  assumes "\<bar>q\<bar> < 2 ^ 53"
  shows "parseEther_toString (of_int q) = Some (q * 10 ^ 18)"
proof -
  have "\<bar>q\<bar> < 10 ^ 21"
    using assms by simp
  then have "(of_int \<bar>q\<bar> :: rat) < of_int (10 ^ 21)"
    by (simp only: of_int_less_iff)
  then have "\<bar>of_int q :: rat\<bar> < 10 ^ 21"
    by simp
  then show ?thesis
    by (simp add: parseEther_toString_def)
qed

subsection \<open>The three ways of a deposit\<close>

text \<open>
  Once the pending claim of the sender, if there is one, is confirmed, the transaction is
  received, and then: a sender with no claim is refunded; a claimed sender whose amount
  fails the test of the decimals is refunded; any other deposit is stored and the cold
  wallet is looked after.
\<close>

lemma processUserDeposit_stores:
  assumes "(if await (service_hasPendingClaim (store w) sender)
            then service_confirmClaim (store w) sender else Inr (store w)) = Inr r1"
    and "await (service_isClaimed r1 sender)"
    and "parseFloat_formatEther amount =
         Number_value (Math_round (Number_value (parseFloat_formatEther amount * 100)) / 100)"
  shows "processUserDeposit cfg e w sender amount timestamp hash =
     (case eventuallySendToColdWallet cfg e
             (w\<lparr>store := service_storeUserDeposit r1 sender amount timestamp hash,
                received := received w @ [hash]\<rparr>) amount of
        (Inl err, w3) \<Rightarrow> (Inl err, w3)
      | (Inr u, w3) \<Rightarrow> (Inr True, w3))"
proof -
  have "receiveTransaction (w\<lparr>store := r1\<rparr>) hash
          \<lparr>store := service_storeUserDeposit r1 sender amount timestamp hash\<rparr> =
        w\<lparr>store := service_storeUserDeposit r1 sender amount timestamp hash,
          received := received w @ [hash]\<rparr>"
    by (simp add: receiveTransaction_def)
  moreover have "store (receiveTransaction (w\<lparr>store := r1\<rparr>) hash) = r1"
    by (simp add: receiveTransaction_def)
  ultimately show ?thesis
    unfolding processUserDeposit_def assms(1) using assms(2,3)
    by (simp add: Let_def)
qed

lemma processUserDeposit_refunds_unclaimed:
  assumes "(if await (service_hasPendingClaim (store w) sender)
            then service_confirmClaim (store w) sender else Inr (store w)) = Inr r1"
    and "\<not> await (service_isClaimed r1 sender)"
  shows "processUserDeposit cfg e w sender amount timestamp hash =
     (Inr False, w\<lparr>store := r1, received := received w @ [hash],
                    sent := sent w @ [(sender, amount)]\<rparr>)"
  unfolding processUserDeposit_def assms(1) using assms(2)
  by (simp add: receiveTransaction_def sendPaw_def Let_def)

lemma processUserDeposit_refunds_decimals:
  assumes "(if await (service_hasPendingClaim (store w) sender)
            then service_confirmClaim (store w) sender else Inr (store w)) = Inr r1"
    and "await (service_isClaimed r1 sender)"
    and "parseFloat_formatEther amount \<noteq>
         Number_value (Math_round (Number_value (parseFloat_formatEther amount * 100)) / 100)"
  shows "processUserDeposit cfg e w sender amount timestamp hash =
     (Inr False, w\<lparr>store := r1, received := received w @ [hash],
                    sent := sent w @ [(sender, amount)]\<rparr>)"
  unfolding processUserDeposit_def assms(1) using assms(2,3)
  by (simp add: receiveTransaction_def sendPaw_def Let_def)

lemma stub_total_balance:
  "getTotalBalance (stub_total H) (PawUsersDepositsHotWallet test_config) = Inr H"
  by (simp add: getTotalBalance_def stub_total_def test_env_def)

lemma test_ratio:
  "PawUsersDepositsHotWalletToColdWalletRatio test_config = of_int 20"
  "PawUsersDepositsHotWalletMinimum test_config = 10 * 10 ^ 18"
  "PawUsersDepositsColdWallet test_config = ''paw_ILIKETHIS''"
  by (simp_all add: test_config_def)

lemma claimed_world_deposits:
  "(if await (service_hasPendingClaim (store claimed_world) ''paw_X'')
    then service_confirmClaim (store claimed_world) ''paw_X''
    else Inr (store claimed_world)) = Inr (store claimed_world)"
  "await (service_isClaimed (store claimed_world) ''paw_X'')"
  "received claimed_world = []"
  "sent claimed_world = []"
  by (simp_all add: service_hasPendingClaim_def service_isClaimed_def storage_hasPendingClaim_def
      storage_isClaimed_def redis_keys_def glob_match_def claimed_world_def empty_world_def
      empty_redis_def toLowerCase_def lower_char_def)

lemma cold_wallet_untouched:
  assumes "getTotalBalance e (PawUsersDepositsHotWallet cfg) = Inr H"
    and "H \<le> PawUsersDepositsHotWalletMinimum cfg"
  shows "eventuallySendToColdWallet cfg e w deposit = (Inr (), w)"
  using assms by (simp add: eventuallySendToColdWallet_def Let_def)

lemma decimals_unseen:
  "parseFloat_formatEther (10 ^ 18 + 1) =
   Number_value (Math_round (Number_value (parseFloat_formatEther (10 ^ 18 + 1) * 100)) / 100)"
  by code_simp

lemma decimals_seen:
  "parseFloat_formatEther (1466 * 10 ^ 15) \<noteq>
   Number_value (Math_round (Number_value (parseFloat_formatEther (1466 * 10 ^ 15) * 100)) / 100)"
  by code_simp

text \<open>
  Claim C3 says that a deposit of a claimed sender with more than two decimal places is
  refunded in full and not stored. The test of \<^verbatim>\<open>processUserDeposit\<close> compares two
  JavaScript numbers, the amount read by \<^verbatim>\<open>parseFloat\<close> and that number rounded to two
  decimals. The amount 1.000000000000000001, which has eighteen decimals, is read as the
  number 1 and passes the test: with \<^verbatim>\<open>paw_X\<close> claimed and holding 200, the deposit is
  stored, the balance becomes 201.000000000000000001 and nothing is sent back. The amount
  1.466 of \<^verbatim>\<open>test/Paw.spec.ts\<close> fails the test and is sent back.
\<close>

theorem deposit_of_eighteen_decimals_is_credited:
  "await (service_isClaimed (store claimed_world) ''paw_X'')
   \<and> (10 ^ 18 + 1) mod 10 ^ 16 \<noteq> (0 :: int)
   \<and> processUserDeposit test_config (stub_total (10 ^ 18 + 1)) claimed_world
         ''paw_X'' (10 ^ 18 + 1) 1 ''0xCAFEBABE''
       = (Inr True,
          claimed_world\<lparr>store := storage_storeUserDeposit (store claimed_world)
                                    ''paw_X'' (10 ^ 18 + 1) 1 ''0xCAFEBABE'',
                        received := [''0xCAFEBABE'']\<rparr>)
   \<and> storage_getUserAvailableBalance
        (storage_storeUserDeposit (store claimed_world) ''paw_X'' (10 ^ 18 + 1) 1 ''0xCAFEBABE'')
        ''paw_X'' = 200 * 10 ^ 18 + (10 ^ 18 + 1)
   \<and> zsets (storage_storeUserDeposit (store claimed_world) ''paw_X'' (10 ^ 18 + 1) 1 ''0xCAFEBABE'')
        ''deposits:paw_x'' = [(''0xCAFEBABE'', 1)]
   \<and> processUserDeposit test_config (stub_total (1466 * 10 ^ 15)) claimed_world
         ''paw_X'' (1466 * 10 ^ 15) 1 ''0xCAFEBABE''
       = (Inr False,
          claimed_world\<lparr>received := [''0xCAFEBABE''], sent := [(''paw_X'', 1466 * 10 ^ 15)]\<rparr>)"
proof -
  have more: "(10 ^ 18 + 1) mod 10 ^ 16 \<noteq> (0 :: int)"
    by simp
  have fresh: "service_storeUserDeposit (store claimed_world) ''paw_X'' (10 ^ 18 + 1) 1 ''0xCAFEBABE''
      = storage_storeUserDeposit (store claimed_world) ''paw_X'' (10 ^ 18 + 1) 1 ''0xCAFEBABE''"
    by (simp add: service_storeUserDeposit_def storage_containsUserDepositTransaction_def
        zrank_found_def claimed_world_def empty_world_def empty_redis_def)
  have cold: "eventuallySendToColdWallet test_config (stub_total (10 ^ 18 + 1)) v (10 ^ 18 + 1)
      = (Inr (), v)" for v
    by (rule cold_wallet_untouched [OF stub_total_balance]) (simp add: test_ratio)
  have credited: "processUserDeposit test_config (stub_total (10 ^ 18 + 1)) claimed_world
         ''paw_X'' (10 ^ 18 + 1) 1 ''0xCAFEBABE''
       = (Inr True,
          claimed_world\<lparr>store := storage_storeUserDeposit (store claimed_world)
                                    ''paw_X'' (10 ^ 18 + 1) 1 ''0xCAFEBABE'',
                        received := [''0xCAFEBABE'']\<rparr>)"
    unfolding processUserDeposit_stores [OF claimed_world_deposits(1,2) decimals_unseen] cold fresh
    by (simp add: claimed_world_deposits)
  have balance: "storage_getUserAvailableBalance
        (storage_storeUserDeposit (store claimed_world) ''paw_X'' (10 ^ 18 + 1) 1 ''0xCAFEBABE'')
        ''paw_X'' = 200 * 10 ^ 18 + (10 ^ 18 + 1)"
    by (simp add: storage_getUserAvailableBalance_def storage_storeUserDeposit_def zadd_def hset_def
        Let_def claimed_world_def empty_world_def empty_redis_def toLowerCase_def lower_char_def)
  have listed: "zsets (storage_storeUserDeposit (store claimed_world) ''paw_X'' (10 ^ 18 + 1) 1 ''0xCAFEBABE'')
        ''deposits:paw_x'' = [(''0xCAFEBABE'', 1)]"
    by (simp add: storage_storeUserDeposit_def zadd_def hset_def 
        Let_def claimed_world_def empty_world_def empty_redis_def toLowerCase_def lower_char_def)
  have refunded: "processUserDeposit test_config (stub_total (1466 * 10 ^ 15)) claimed_world
         ''paw_X'' (1466 * 10 ^ 15) 1 ''0xCAFEBABE''
       = (Inr False,
          claimed_world\<lparr>received := [''0xCAFEBABE''], sent := [(''paw_X'', 1466 * 10 ^ 15)]\<rparr>)"
    unfolding processUserDeposit_refunds_decimals [OF claimed_world_deposits(1,2) decimals_seen]
    by (simp add: claimed_world_deposits)
  from claimed_world_deposits(2) more credited balance listed refunded show ?thesis
    by (intro conjI)
qed

section \<open>The hot and the cold wallet\<close>

lemma cold_wallet_formula:
  assumes total: "getTotalBalance e (PawUsersDepositsHotWallet cfg) = Inr H"
    and ratio: "PawUsersDepositsHotWalletToColdWalletRatio cfg = of_int r"
    and r_range: "\<bar>100 - r\<bar> < 2 ^ 53 - 1"
    and dep: "0 \<le> deposit"
    and whole: "deposit div 10 ^ 18 < 2 ^ 53"
  shows "eventuallySendToColdWallet cfg e w deposit =
     (Inr (),
      if H \<le> PawUsersDepositsHotWalletMinimum cfg
         \<or> min (H - PawUsersDepositsHotWalletMinimum cfg) deposit div 10 ^ 18 * 10 ^ 18 div 100
             * (100 - r) = 0
      then w
      else w\<lparr>sent := sent w @
             [(PawUsersDepositsColdWallet cfg,
               min (H - PawUsersDepositsHotWalletMinimum cfg) deposit div 10 ^ 18 * 10 ^ 18 div 100
                 * (100 - r))]\<rparr>)"
proof (cases "H \<le> PawUsersDepositsHotWalletMinimum cfg")
  case True
  then show ?thesis
    by (simp add: eventuallySendToColdWallet_def total Let_def)
next
  case False
  define a where "a = min (H - PawUsersDepositsHotWalletMinimum cfg) deposit"
  have a_if: "(if H - PawUsersDepositsHotWalletMinimum cfg > deposit then deposit
               else H - PawUsersDepositsHotWalletMinimum cfg) = a"
    by (simp add: a_def min_def)
  have a0: "0 \<le> a"
    using False dep by (simp add: a_def)
  have "a div 10 ^ 18 \<le> deposit div 10 ^ 18"
    by (rule zdiv_mono1) (simp_all add: a_def)
  with whole have aw: "a div 10 ^ 18 < 2 ^ 53"
    by simp
  have q0: "0 \<le> a div 10 ^ 18"
    using a0 by (simp add: pos_imp_zdiv_nonneg_iff)
  have rounded: "Math_round (parseInt_formatUnits a) = of_int (a div 10 ^ 18)"
    by (simp only: parseInt_formatUnits_whole [OF a0 aw] Math_round_of_int)
  have target: "BigNumber_from_number
      (Number_value (100 - PawUsersDepositsHotWalletToColdWalletRatio cfg)) = Some (100 - r)"
    using BigNumber_from_number_of_int [OF r_range] by (simp add: ratio)
  have units: "parseEther_toString (of_int (a div 10 ^ 18)) = Some (a div 10 ^ 18 * 10 ^ 18)"
    using q0 aw by (intro parseEther_toString_of_int) simp
  have units': "parseEther_toString (Math_round (parseInt_formatUnits a)) = Some (a div 10 ^ 18 * 10 ^ 18)"
    by (simp only: rounded units)
  show ?thesis
  proof (cases "H - PawUsersDepositsHotWalletMinimum cfg > deposit")
    case True
    then have a_eq: "a = deposit"
      by (simp add: a_def)
    show ?thesis
      using False True units' [unfolded a_eq] a_def [unfolded a_eq, symmetric]
      by (simp add: eventuallySendToColdWallet_def total Let_def target sendPaw_def)
  next
    case above: False
    then have a_eq: "a = H - PawUsersDepositsHotWalletMinimum cfg"
      by (simp add: a_def)
    show ?thesis
      using False above units' [unfolded a_eq] a_def [unfolded a_eq, symmetric]
      by (simp add: eventuallySendToColdWallet_def total Let_def target sendPaw_def)
  qed
qed

lemma dataset_row:
  assumes total: "getTotalBalance e (PawUsersDepositsHotWallet test_config) = Inr (hot + deposit)"
    and row: "(hot, deposit, expected) \<in> set dataset"
  shows "eventuallySendToColdWallet test_config e w deposit =
     (Inr (), w\<lparr>sent := sent w @ [(''paw_ILIKETHIS'', expected)]\<rparr>)"
proof -
  have formula: "0 \<le> deposit \<Longrightarrow> deposit div 10 ^ 18 < 2 ^ 53 \<Longrightarrow>
    eventuallySendToColdWallet test_config e w deposit =
     (Inr (),
      if hot + deposit \<le> 10 * 10 ^ 18
         \<or> min (hot + deposit - 10 * 10 ^ 18) deposit div 10 ^ 18 * 10 ^ 18 div 100 * (100 - 20) = 0
      then w
      else w\<lparr>sent := sent w @
             [(''paw_ILIKETHIS'',
               min (hot + deposit - 10 * 10 ^ 18) deposit div 10 ^ 18 * 10 ^ 18 div 100 * (100 - 20))]\<rparr>)"
    using cold_wallet_formula [OF total test_ratio(1), of deposit w]
    by (simp only: test_ratio(2,3)) simp
  from row consider
      "hot = 10 * 10 ^ 18" "deposit = 10 * 10 ^ 18" "expected = 8 * 10 ^ 18"
    | "hot = 5 * 10 ^ 18" "deposit = 12 * 10 ^ 18" "expected = 56 * 10 ^ 17"
    | "hot = 0" "deposit = 11 * 10 ^ 18" "expected = 8 * 10 ^ 17"
    | "hot = 20 * 10 ^ 18" "deposit = 10 * 10 ^ 18" "expected = 8 * 10 ^ 18"
    | "hot = 10 * 10 ^ 18" "deposit = 412 * 10 ^ 16" "expected = 32 * 10 ^ 17"
    by (auto simp: dataset_def)
  then show ?thesis
  proof cases
    case 1
    with formula show ?thesis by simp
  next
    case 2
    with formula show ?thesis by simp
  next
    case 3
    with formula show ?thesis by simp
  next
    case 4
    with formula show ?thesis by simp
  next
    case 5
    with formula show ?thesis by simp
  qed
qed

lemma dataset_two_decimals:
  assumes "(hot, deposit, expected) \<in> set dataset"
  shows "parseFloat_formatEther deposit =
         Number_value (Math_round (Number_value (parseFloat_formatEther deposit * 100)) / 100)"
proof -
  have "parseFloat_formatEther (10 * 10 ^ 18) =
         Number_value (Math_round (Number_value (parseFloat_formatEther (10 * 10 ^ 18) * 100)) / 100)"
    by code_simp
  moreover have "parseFloat_formatEther (12 * 10 ^ 18) =
         Number_value (Math_round (Number_value (parseFloat_formatEther (12 * 10 ^ 18) * 100)) / 100)"
    by code_simp
  moreover have "parseFloat_formatEther (11 * 10 ^ 18) =
         Number_value (Math_round (Number_value (parseFloat_formatEther (11 * 10 ^ 18) * 100)) / 100)"
    by code_simp
  moreover have "parseFloat_formatEther (412 * 10 ^ 16) =
         Number_value (Math_round (Number_value (parseFloat_formatEther (412 * 10 ^ 16) * 100)) / 100)"
    by code_simp
  moreover from assms have "deposit = 10 * 10 ^ 18 \<or> deposit = 12 * 10 ^ 18
      \<or> deposit = 11 * 10 ^ 18 \<or> deposit = 412 * 10 ^ 16"
    by (auto simp: dataset_def)
  ultimately show ?thesis
    by blast
qed

lemma scaled_exactly:
  fixes x c :: int
  shows "x * 10 ^ 18 div 100 * c = x * 10 ^ 18 * c div 100"
proof -
  have e: "(10::int) ^ 18 = 100 * 10 ^ 16"
    by simp
  show ?thesis
    unfolding e by simp
qed

text \<open>
  Claim C6. Let \<open>H\<close> be the total balance of the hot wallet, the deposit included, \<open>M\<close>
  the configured minimum and \<open>r\<close> the configured ratio, a whole number. After a deposit the
  amount sent to the cold wallet is \<open>min (H - M) deposit\<close>, floored to whole units, times
  \<open>(100 - r) / 100\<close>; nothing is sent when that amount is 0, and nothing is sent when
  \<open>H \<le> M\<close>. With the minimum 10 and the ratio 20, for each row (hot, deposit, expected) of
  the dataset of \<^verbatim>\<open>test/Paw.spec.ts\<close>, that is (10, 10, 8.0), (5, 12, 5.6), (0, 11, 0.8),
  (20, 10, 8.0) and (10, 4.12, 3.2), and the hot wallet holding hot + deposit: the deposit
  of a claimed sender is received and stored, and exactly one transfer is made, of the
  expected amount to the cold wallet.
\<close>

theorem deposit_cold_wallet_share:
  "(getTotalBalance e (PawUsersDepositsHotWallet cfg) = Inr H
      \<and> PawUsersDepositsHotWalletToColdWalletRatio cfg = of_int r \<and> \<bar>100 - r\<bar> < 2 ^ 53 - 1
      \<and> 0 \<le> deposit \<and> deposit div 10 ^ 18 < 2 ^ 53 \<longrightarrow>
    eventuallySendToColdWallet cfg e w deposit =
      (let whole = min (H - PawUsersDepositsHotWalletMinimum cfg) deposit div 10 ^ 18;
           send = whole * 10 ^ 18 * (100 - r) div 100
       in (Inr (),
           if H \<le> PawUsersDepositsHotWalletMinimum cfg \<or> send = 0 then w
           else w\<lparr>sent := sent w @ [(PawUsersDepositsColdWallet cfg, send)]\<rparr>)))
   \<and> (getTotalBalance e (PawUsersDepositsHotWallet cfg) = Inr H
      \<and> H \<le> PawUsersDepositsHotWalletMinimum cfg \<longrightarrow>
    eventuallySendToColdWallet cfg e w deposit = (Inr (), w))
   \<and> (\<forall>(hot, amount, expected) \<in> set dataset.
        getTotalBalance e (PawUsersDepositsHotWallet test_config) = Inr (hot + amount)
        \<and> (if await (service_hasPendingClaim (store w) sender)
            then service_confirmClaim (store w) sender else Inr (store w)) = Inr r1
        \<and> await (service_isClaimed r1 sender) \<longrightarrow>
        processUserDeposit test_config e w sender amount timestamp hash =
          (Inr True,
           w\<lparr>store := service_storeUserDeposit r1 sender amount timestamp hash,
             received := received w @ [hash],
             sent := sent w @ [(PawUsersDepositsColdWallet test_config, expected)]\<rparr>))"
proof (intro conjI impI ballI)
  assume a: "getTotalBalance e (PawUsersDepositsHotWallet cfg) = Inr H
      \<and> PawUsersDepositsHotWalletToColdWalletRatio cfg = of_int r \<and> \<bar>100 - r\<bar> < 2 ^ 53 - 1
      \<and> 0 \<le> deposit \<and> deposit div 10 ^ 18 < 2 ^ 53"
  then have "eventuallySendToColdWallet cfg e w deposit =
     (Inr (),
      if H \<le> PawUsersDepositsHotWalletMinimum cfg
         \<or> min (H - PawUsersDepositsHotWalletMinimum cfg) deposit div 10 ^ 18 * 10 ^ 18 div 100
             * (100 - r) = 0
      then w
      else w\<lparr>sent := sent w @
             [(PawUsersDepositsColdWallet cfg,
               min (H - PawUsersDepositsHotWalletMinimum cfg) deposit div 10 ^ 18 * 10 ^ 18 div 100
                 * (100 - r))]\<rparr>)"
    by (intro cold_wallet_formula) simp_all
  then show "eventuallySendToColdWallet cfg e w deposit =
      (let whole = min (H - PawUsersDepositsHotWalletMinimum cfg) deposit div 10 ^ 18;
           send = whole * 10 ^ 18 * (100 - r) div 100
       in (Inr (),
           if H \<le> PawUsersDepositsHotWalletMinimum cfg \<or> send = 0 then w
           else w\<lparr>sent := sent w @ [(PawUsersDepositsColdWallet cfg, send)]\<rparr>))"
    unfolding Let_def scaled_exactly .
next
  assume "getTotalBalance e (PawUsersDepositsHotWallet cfg) = Inr H
      \<and> H \<le> PawUsersDepositsHotWalletMinimum cfg"
  then show "eventuallySendToColdWallet cfg e w deposit = (Inr (), w)"
    by (simp add: eventuallySendToColdWallet_def Let_def)
next
  fix row
  assume row: "row \<in> set dataset"
  obtain hot amount expected where row_eq: "row = (hot, amount, expected)"
    by (cases row) auto
  have "processUserDeposit test_config e w sender amount timestamp hash =
          (Inr True,
           w\<lparr>store := service_storeUserDeposit r1 sender amount timestamp hash,
             received := received w @ [hash],
             sent := sent w @ [(PawUsersDepositsColdWallet test_config, expected)]\<rparr>)"
    if total: "getTotalBalance e (PawUsersDepositsHotWallet test_config) = Inr (hot + amount)"
      and claim: "(if await (service_hasPendingClaim (store w) sender)
            then service_confirmClaim (store w) sender else Inr (store w)) = Inr r1"
      and claimed: "await (service_isClaimed r1 sender)"
  proof -
    note in_dataset = row [unfolded row_eq]
    show ?thesis
      unfolding processUserDeposit_stores [OF claim claimed dataset_two_decimals [OF in_dataset]]
        dataset_row [OF total in_dataset]
      by (simp add: test_ratio)
  qed
  then show "case row of (hot, amount, expected) \<Rightarrow>
        getTotalBalance e (PawUsersDepositsHotWallet test_config) = Inr (hot + amount)
        \<and> (if await (service_hasPendingClaim (store w) sender)
            then service_confirmClaim (store w) sender else Inr (store w)) = Inr r1
        \<and> await (service_isClaimed r1 sender) \<longrightarrow>
        processUserDeposit test_config e w sender amount timestamp hash =
          (Inr True,
           w\<lparr>store := service_storeUserDeposit r1 sender amount timestamp hash,
             received := received w @ [hash],
             sent := sent w @ [(PawUsersDepositsColdWallet test_config, expected)]\<rparr>)"
    unfolding row_eq by simp
qed

text \<open>
  The hot wallet holds 20 after a deposit of 10: 8 go to the cold wallet. It holds 10.01
  after a deposit of 0.01, or 5 after a deposit of 4: nothing is sent. And the last row of
  the dataset, a deposit of 4.12 by \<^verbatim>\<open>paw_X\<close>, which is claimed: 3.2 go to the cold wallet.
\<close>

theorem deposit_cold_wallet_share_witness:
  "getTotalBalance (stub_total (20 * 10 ^ 18)) (PawUsersDepositsHotWallet test_config) = Inr (20 * 10 ^ 18)
   \<and> eventuallySendToColdWallet test_config (stub_total (20 * 10 ^ 18)) empty_world (10 * 10 ^ 18)
       = (Inr (), empty_world\<lparr>sent := [(''paw_ILIKETHIS'', 8 * 10 ^ 18)]\<rparr>)
   \<and> eventuallySendToColdWallet test_config (stub_total (10 * 10 ^ 18 + 10 ^ 16)) empty_world (10 ^ 16)
       = (Inr (), empty_world)
   \<and> eventuallySendToColdWallet test_config (stub_total (5 * 10 ^ 18)) empty_world (4 * 10 ^ 18)
       = (Inr (), empty_world)
   \<and> (10 * 10 ^ 18, 412 * 10 ^ 16, 32 * 10 ^ 17) \<in> set dataset
   \<and> await (service_isClaimed (store claimed_world) ''paw_X'')
   \<and> processUserDeposit test_config (stub_total (10 * 10 ^ 18 + 412 * 10 ^ 16)) claimed_world
         ''paw_X'' (412 * 10 ^ 16) 1 ''0xCAFEBABE''
       = (Inr True,
          claimed_world\<lparr>store := service_storeUserDeposit (store claimed_world)
                                    ''paw_X'' (412 * 10 ^ 16) 1 ''0xCAFEBABE'',
                        received := [''0xCAFEBABE''],
                        sent := [(''paw_ILIKETHIS'', 32 * 10 ^ 17)]\<rparr>)"
proof -
  have sent0: "sent empty_world = []"
    by (simp add: empty_world_def)
  have "eventuallySendToColdWallet test_config (stub_total (20 * 10 ^ 18)) empty_world (10 * 10 ^ 18) =
      (let whole = min (20 * 10 ^ 18 - PawUsersDepositsHotWalletMinimum test_config) (10 * 10 ^ 18) div 10 ^ 18;
           send = whole * 10 ^ 18 * (100 - 20) div 100
       in (Inr (),
           if 20 * 10 ^ 18 \<le> PawUsersDepositsHotWalletMinimum test_config \<or> send = 0 then empty_world
           else empty_world\<lparr>sent := sent empty_world @ [(PawUsersDepositsColdWallet test_config, send)]\<rparr>))"
    by (rule deposit_cold_wallet_share [where e = "stub_total (20 * 10 ^ 18)" and cfg = test_config
          and w = empty_world and r = 20, THEN conjunct1, THEN mp])
       (simp add: stub_total_balance test_ratio)
  then have first: "eventuallySendToColdWallet test_config (stub_total (20 * 10 ^ 18)) empty_world (10 * 10 ^ 18)
       = (Inr (), empty_world\<lparr>sent := [(''paw_ILIKETHIS'', 8 * 10 ^ 18)]\<rparr>)"
    by (simp add: test_ratio sent0)
  have "eventuallySendToColdWallet test_config (stub_total (10 * 10 ^ 18 + 10 ^ 16)) empty_world (10 ^ 16) =
      (let whole = min (10 * 10 ^ 18 + 10 ^ 16 - PawUsersDepositsHotWalletMinimum test_config) (10 ^ 16) div 10 ^ 18;
           send = whole * 10 ^ 18 * (100 - 20) div 100
       in (Inr (),
           if 10 * 10 ^ 18 + 10 ^ 16 \<le> PawUsersDepositsHotWalletMinimum test_config \<or> send = 0 then empty_world
           else empty_world\<lparr>sent := sent empty_world @ [(PawUsersDepositsColdWallet test_config, send)]\<rparr>))"
    by (rule deposit_cold_wallet_share [where e = "stub_total (10 * 10 ^ 18 + 10 ^ 16)" and cfg = test_config
          and w = empty_world and r = 20, THEN conjunct1, THEN mp])
       (simp add: stub_total_balance test_ratio)
  then have dust: "eventuallySendToColdWallet test_config (stub_total (10 * 10 ^ 18 + 10 ^ 16)) empty_world (10 ^ 16)
       = (Inr (), empty_world)"
    by (simp add: test_ratio)
  have short: "eventuallySendToColdWallet test_config (stub_total (5 * 10 ^ 18)) empty_world (4 * 10 ^ 18)
       = (Inr (), empty_world)"
    by (rule deposit_cold_wallet_share [where H = "5 * 10 ^ 18", THEN conjunct2, THEN conjunct1, THEN mp])
       (simp add: stub_total_balance test_ratio)
  have row: "(10 * 10 ^ 18, 412 * 10 ^ 16, 32 * 10 ^ 17) \<in> set dataset"
    by (simp add: dataset_def)
  have "processUserDeposit test_config (stub_total (10 * 10 ^ 18 + 412 * 10 ^ 16)) claimed_world
         ''paw_X'' (412 * 10 ^ 16) 1 ''0xCAFEBABE''
       = (Inr True,
          claimed_world\<lparr>store := service_storeUserDeposit (store claimed_world)
                                    ''paw_X'' (412 * 10 ^ 16) 1 ''0xCAFEBABE'',
                        received := received claimed_world @ [''0xCAFEBABE''],
                        sent := sent claimed_world @ [(PawUsersDepositsColdWallet test_config, 32 * 10 ^ 17)]\<rparr>)"
    using deposit_cold_wallet_share [where e = "stub_total (10 * 10 ^ 18 + 412 * 10 ^ 16)"
        and w = claimed_world and sender = "''paw_X''" and ?r1.0 = "store claimed_world"
        and timestamp = 1 and hash = "''0xCAFEBABE''",
        THEN conjunct2, THEN conjunct2, THEN bspec, OF row]
      stub_total_balance claimed_world_deposits(1,2)
    by (simp only: prod.case)
  then have deposit: "processUserDeposit test_config (stub_total (10 * 10 ^ 18 + 412 * 10 ^ 16)) claimed_world
         ''paw_X'' (412 * 10 ^ 16) 1 ''0xCAFEBABE''
       = (Inr True,
          claimed_world\<lparr>store := service_storeUserDeposit (store claimed_world)
                                    ''paw_X'' (412 * 10 ^ 16) 1 ''0xCAFEBABE'',
                        received := [''0xCAFEBABE''],
                        sent := [(''paw_ILIKETHIS'', 32 * 10 ^ 17)]\<rparr>)"
    by (simp only: claimed_world_deposits(3,4) test_ratio(3) append_Nil)
  from stub_total_balance first dust short row claimed_world_deposits(2) deposit show ?thesis
    by (intro conjI)
qed

end
